theory Spec2Isabelle
  imports Complex_Main "HOL-Library.AList" "HOL-Library.Char_ord" "HOL-Library.List_Lexorder"
begin

section \<open>Python values\<close>

text \<open>
  The servers move decoded JSON around. A JSON value is a \<open>pyval\<close>; numbers are
  idealised as reals (Python's \<open>int\<close> and \<open>float\<close> are not told apart, and rounding
  of floats is not modelled). A Python \<open>dict\<close> with string keys is an association list
  that is read with \<open>map_of\<close> and written with \<open>AList.update\<close>, which keeps the
  insertion order of the keys as Python does.
\<close>

datatype pyval =
    PNone
  | PBool bool
  | PNum real
  | PStr string
  | PList "pyval list"
  | PDict "(string \<times> pyval) list"

type_synonym pydict = "(string \<times> pyval) list"

text \<open>Truth value testing (\<open>if x:\<close>, \<open>not x\<close>, \<open>x and y\<close>).\<close>

fun truthy :: "pyval \<Rightarrow> bool" where
  "truthy PNone = False"
| "truthy (PBool b) = b"
| "truthy (PNum r) = (r \<noteq> 0)"
| "truthy (PStr s) = (s \<noteq> [])"
| "truthy (PList xs) = (xs \<noteq> [])"
| "truthy (PDict kvs) = (kvs \<noteq> [])"

text \<open>The exceptions that appear in the code paths modelled here.\<close>

datatype py_error =
    TimeoutError
  | ClientError
  | AttributeError
  | TypeError
  | ZeroDivisionError
  | IntegrityError
  | InterfaceError
  | ProgrammingError

text \<open>\<open>d.get(k, default)\<close> on a dict; \<open>d.get(k)\<close> is \<open>dict_get d k PNone\<close>.\<close>

definition dict_get :: "(string \<times> 'v) list \<Rightarrow> string \<Rightarrow> 'v \<Rightarrow> 'v" where
  "dict_get d k dflt = (case map_of d k of None \<Rightarrow> dflt | Some v \<Rightarrow> v)"

text \<open>\<open>xs[-k:]\<close> for \<open>k \<ge> 0\<close>: since \<open>-0\<close> is \<open>0\<close>, \<open>xs[-0:]\<close> is the whole list.\<close>

definition slice_last :: "nat \<Rightarrow> 'a list \<Rightarrow> 'a list" where
  "slice_last k xs = (if k = 0 then xs else drop (length xs - k) xs)"

section \<open>The V4 curve provider (v4_curve_provider.py)\<close>

text \<open>
  The bodies of the three upstream endpoints are modelled after decoding, in the shape
  the provider reads them: a mapping from horizon label to a point dict, the scalar
  top-level keys as a dict, and history entries with a string timestamp (\<open>None\<close> when
  the key is missing). Bodies of another shape are outside these types.
\<close>

definition V4_HORIZONS :: "string list" where
  "V4_HORIZONS = [''+1H'', ''+2H'', ''+4H'', ''+6H'', ''+8H'', ''+12H'', ''+18H'', ''+24H'']"

record tracking_data =
  td_forward_curve :: "(string \<times> pydict) list"
  td_original_predictions :: "(string \<times> pydict) list"
  td_fields :: pydict

record yesterday_data =
  yd_forward_curve :: "(string \<times> pydict) list"

record history_entry =
  he_timestamp :: "string option"
  he_forward_curve :: "(string \<times> pydict) list"

record stabilized_entry =
  st_price :: pyval
  st_timestamp :: "string option"

record curve_point =
  cp_horizon :: string
  cp_target_price :: pyval
  cp_pct_change :: pyval
  cp_lower_90 :: pyval
  cp_upper_90 :: pyval
  cp_is_actual :: pyval
  cp_original_price :: pyval
  cp_original_pct :: pyval
  cp_yesterday_price :: pyval
  cp_stabilized_price :: pyval
  cp_stabilized_timestamp :: "string option"

record 'p curve =
  c_type :: string
  c_timestamp :: string
  c_generated_at :: pyval
  c_anchor_timestamp :: pyval
  c_hours_elapsed :: pyval
  c_current_price :: pyval
  c_anchor_price :: pyval
  c_direction :: pyval
  c_regime :: pyval
  c_curve_quality :: pyval
  c_curve :: "'p list"
  c_model :: string
  c_has_yesterday :: bool
  c_has_history :: bool

subsection \<open>\<open>_extract_stabilized_from_history\<close>\<close>

text \<open>The key of \<open>sorted(history_data, key=lambda x: x.get("timestamp", ""))\<close>.\<close>

definition timestamp_key :: "history_entry \<Rightarrow> string" where
  "timestamp_key x = (case he_timestamp x of None \<Rightarrow> [] | Some t \<Rightarrow> t)"

text \<open>
  One round of the inner loop over the sorted history, for one horizon: the pair is
  \<open>(last_prediction, last_timestamp)\<close>.
\<close>

definition scan_entry ::
  "string \<Rightarrow> history_entry \<Rightarrow> pyval \<times> string option \<Rightarrow> pyval \<times> string option" where
  "scan_entry horizon entry acc =
     (let fc = he_forward_curve entry;
          h_data = dict_get fc horizon []
      in if h_data \<noteq> [] \<and> \<not> truthy (dict_get h_data ''is_actual'' (PBool False))
         then (dict_get h_data ''price'' PNone, he_timestamp entry)
         else acc)"

text \<open>One round of the outer loop over the horizons.\<close>

definition stabilize_horizon ::
  "history_entry list \<Rightarrow> (string \<times> pydict) list \<Rightarrow> string \<Rightarrow>
   (string \<times> stabilized_entry) list \<Rightarrow> (string \<times> stabilized_entry) list" where
  "stabilize_horizon sorted_history current_curve horizon stabilized =
     (let current_point = dict_get current_curve horizon [];
          is_now_actual = dict_get current_point ''is_actual'' (PBool False)
      in if truthy is_now_actual
         then (case fold (scan_entry horizon) sorted_history (PNone, None) of
                 (last_prediction, last_timestamp) \<Rightarrow>
                   if last_prediction \<noteq> PNone
                   then AList.update horizon
                          \<lparr>st_price = last_prediction, st_timestamp = last_timestamp\<rparr> stabilized
                   else stabilized)
         else AList.update horizon
                \<lparr>st_price = dict_get current_point ''price'' PNone, st_timestamp = None\<rparr>
                stabilized)"

definition extract_stabilized_from_history ::
  "history_entry list option \<Rightarrow> (string \<times> pydict) list \<Rightarrow> (string \<times> stabilized_entry) list" where
  "extract_stabilized_from_history history_data current_curve =
     (case history_data of
        None \<Rightarrow> []
      | Some hist \<Rightarrow>
          if hist = [] then []
          else let sorted_history = sort_key timestamp_key hist
               in fold (stabilize_horizon sorted_history current_curve) V4_HORIZONS [])"

subsection \<open>\<open>_transform_response\<close>\<close>

definition no_stabilized :: stabilized_entry where
  "no_stabilized = \<lparr>st_price = PNone, st_timestamp = None\<rparr>"

definition transform_point ::
  "tracking_data \<Rightarrow> (string \<times> pydict) list \<Rightarrow> (string \<times> stabilized_entry) list \<Rightarrow>
   string \<Rightarrow> curve_point list \<Rightarrow> curve_point list" where
  "transform_point data yesterday_curve stabilized_predictions horizon curve_points =
     (case map_of (td_forward_curve data) horizon of
        None \<Rightarrow> curve_points
      | Some point \<Rightarrow>
          let orig = dict_get (td_original_predictions data) horizon [];
              yest = dict_get yesterday_curve horizon [];
              stab = dict_get stabilized_predictions horizon no_stabilized
          in curve_points @
             [\<lparr>cp_horizon = horizon,
               cp_target_price = dict_get point ''price'' (PNum 0),
               cp_pct_change = dict_get point ''pct_change'' (PNum 0),
               cp_lower_90 = dict_get point ''lower_90'' (PNum 0),
               cp_upper_90 = dict_get point ''upper_90'' (PNum 0),
               cp_is_actual = dict_get point ''is_actual'' (PBool False),
               cp_original_price = dict_get orig ''original_price'' PNone,
               cp_original_pct = dict_get orig ''original_pct'' PNone,
               cp_yesterday_price = dict_get yest ''price'' PNone,
               cp_stabilized_price = st_price stab,
               cp_stabilized_timestamp = st_timestamp stab\<rparr>])"

text \<open>\<open>now\<close> is the reading of \<open>datetime.now(UTC).isoformat()\<close>.\<close>

definition transform_response ::
  "string \<Rightarrow> tracking_data \<Rightarrow> yesterday_data option \<Rightarrow> history_entry list option \<Rightarrow>
   curve_point curve" where
  "transform_response now data yesterday history =
     (let forward_curve = td_forward_curve data;
          yesterday_curve = (case yesterday of None \<Rightarrow> [] | Some y \<Rightarrow> yd_forward_curve y);
          stabilized_predictions = extract_stabilized_from_history history forward_curve;
          curve_points =
            fold (transform_point data yesterday_curve stabilized_predictions) V4_HORIZONS []
      in \<lparr>c_type = ''v4_forward_curve'',
          c_timestamp = now,
          c_generated_at = dict_get (td_fields data) ''generated_at'' PNone,
          c_anchor_timestamp = dict_get (td_fields data) ''anchor_timestamp'' PNone,
          c_hours_elapsed = dict_get (td_fields data) ''hours_elapsed'' (PNum 0),
          c_current_price = dict_get (td_fields data) ''current_price'' (PNum 0),
          c_anchor_price = dict_get (td_fields data) ''current_price'' (PNum 0),
          c_direction = dict_get (td_fields data) ''direction'' (PStr ''neutral''),
          c_regime = dict_get (td_fields data) ''regime'' (PStr ''neutral''),
          c_curve_quality = dict_get (td_fields data) ''curve_quality'' (PNum 0),
          c_curve = curve_points,
          c_model = ''V4.32'',
          c_has_yesterday = (yesterday \<noteq> None),
          c_has_history = (case history of None \<Rightarrow> False | Some hist \<Rightarrow> length hist > 0)\<rparr>)"

subsection \<open>\<open>fetch_curve\<close>\<close>

text \<open>
  What one upstream call can give: the request raises (a timeout is one such exception),
  or a response arrives with a status and a body; the body is \<open>None\<close> when
  \<open>resp.json()\<close> raises on it.
\<close>

datatype 'a response = Raises py_error | Response nat "'a option"

text \<open>
  The two optional responses: \<open>Inr None\<close> when the call raised or the status is not 200,
  \<open>Inr (Some d)\<close> for a decoded body, and \<open>Inl\<close> when decoding the body of a 200
  response raises (which leaves the \<open>try\<close> block).
\<close>

definition optional_body :: "'a response \<Rightarrow> unit + 'a option" where
  "optional_body resp =
     (case resp of
        Raises e \<Rightarrow> Inr None
      | Response status body \<Rightarrow>
          if status = 200
          then (case body of None \<Rightarrow> Inl () | Some d \<Rightarrow> Inr (Some d))
          else Inr None)"

text \<open>
  The result is \<open>Optional[dict]\<close>: every \<open>except\<close> branch and the status check log a
  line and return the same \<open>None\<close>.
\<close>

definition fetch_curve ::
  "string \<Rightarrow> tracking_data response \<Rightarrow> yesterday_data response \<Rightarrow>
   history_entry list response \<Rightarrow> curve_point curve option" where
  "fetch_curve now tracking_resp yesterday_resp history_resp =
     (case tracking_resp of
        Raises e \<Rightarrow> None
      | Response status body \<Rightarrow>
          if status \<noteq> 200 then None
          else (case body of
                  None \<Rightarrow> None
                | Some data \<Rightarrow>
                    (case optional_body yesterday_resp of
                       Inl u \<Rightarrow> None
                     | Inr yesterday \<Rightarrow>
                         (case optional_body history_resp of
                            Inl u \<Rightarrow> None
                          | Inr history \<Rightarrow>
                              Some (transform_response now data yesterday history)))))"

subsection \<open>The ledger: \<open>_store_curve_snapshot\<close> and \<open>_add_history_to_curve\<close>\<close>

record prediction_entry =
  pe_price :: pyval
  pe_original_price :: pyval

record snapshot =
  s_timestamp :: string
  s_hours_elapsed :: pyval
  s_anchor_timestamp :: pyval
  s_predictions :: "(string \<times> prediction_entry) list"

record point_with_history = curve_point +
  ph_last_stabilized_price :: "pyval option"
  ph_evolution_count :: nat

record 'p curve_with_history = "'p curve" +
  ch_history_size :: nat

text \<open>
  The state of a provider object, together with the messages it has handed to the
  broadcast callback so far (\<open>v4_published\<close>, oldest first).
\<close>

record v4_provider =
  v4_broadcast_callback :: bool
  v4_last_curve :: "curve_point curve option"
  v4_curve_history :: "snapshot list"
  v4_max_history_size :: nat
  v4_published :: "point_with_history curve_with_history list"

definition v4_init :: v4_provider where
  "v4_init = \<lparr>v4_broadcast_callback = False, v4_last_curve = None, v4_curve_history = [],
     v4_max_history_size = 300, v4_published = []\<rparr>"

definition snapshot_point ::
  "curve_point \<Rightarrow> (string \<times> prediction_entry) list \<Rightarrow> (string \<times> prediction_entry) list" where
  "snapshot_point point predictions =
     (if \<not> truthy (cp_is_actual point)
      then AList.update (cp_horizon point)
             \<lparr>pe_price = cp_target_price point, pe_original_price = cp_original_price point\<rparr>
             predictions
      else predictions)"

definition make_snapshot :: "string \<Rightarrow> curve_point curve \<Rightarrow> snapshot" where
  "make_snapshot now curve =
     \<lparr>s_timestamp = now,
      s_hours_elapsed = c_hours_elapsed curve,
      s_anchor_timestamp = c_anchor_timestamp curve,
      s_predictions = fold snapshot_point (c_curve curve) []\<rparr>"

definition store_curve_snapshot :: "string \<Rightarrow> curve_point curve \<Rightarrow> v4_provider \<Rightarrow> v4_provider" where
  "store_curve_snapshot now curve self =
     (let history = v4_curve_history self @ [make_snapshot now curve]
      in self\<lparr>v4_curve_history :=
           (if length history > v4_max_history_size self
            then slice_last (v4_max_history_size self) history
            else history)\<rparr>)"

text \<open>The \<open>evolution\<close> list of one horizon: \<open>(timestamp, hours_elapsed, price)\<close> per entry.\<close>

definition evolution_of :: "snapshot list \<Rightarrow> string \<Rightarrow> (string \<times> pyval \<times> pyval) list" where
  "evolution_of history horizon =
     List.map_filter
       (\<lambda>snapshot. case map_of (s_predictions snapshot) horizon of
                      None \<Rightarrow> None
                    | Some pred \<Rightarrow>
                        Some (s_timestamp snapshot, s_hours_elapsed snapshot, pe_price pred))
       history"

definition add_history_to_point :: "snapshot list \<Rightarrow> curve_point \<Rightarrow> point_with_history" where
  "add_history_to_point history point =
     (let evolution = evolution_of history (cp_horizon point)
      in curve_point.extend point
           \<lparr>ph_last_stabilized_price =
              (if truthy (cp_is_actual point) \<and> evolution \<noteq> []
               then Some (snd (snd (last evolution)))
               else if \<not> truthy (cp_is_actual point) \<and> evolution \<noteq> []
               then Some (cp_target_price point)
               else None),
            ph_evolution_count = length evolution\<rparr>)"

definition add_history_to_curve ::
  "v4_provider \<Rightarrow> curve_point curve \<Rightarrow> point_with_history curve_with_history" where
  "add_history_to_curve self curve =
     \<lparr>c_type = c_type curve,
      c_timestamp = c_timestamp curve,
      c_generated_at = c_generated_at curve,
      c_anchor_timestamp = c_anchor_timestamp curve,
      c_hours_elapsed = c_hours_elapsed curve,
      c_current_price = c_current_price curve,
      c_anchor_price = c_anchor_price curve,
      c_direction = c_direction curve,
      c_regime = c_regime curve,
      c_curve_quality = c_curve_quality curve,
      c_curve = map (add_history_to_point (v4_curve_history self)) (c_curve curve),
      c_model = c_model curve,
      c_has_yesterday = c_has_yesterday curve,
      c_has_history = c_has_history curve,
      ch_history_size = length (v4_curve_history self)\<rparr>"

subsection \<open>One round of \<open>_poll_loop\<close>\<close>

text \<open>
  The round up to the broadcast; the sleep that follows reads the clock and changes no
  field. \<open>clock k\<close> is the \<open>k\<close>-th reading of \<open>datetime.now\<close> in the round. A curve
  built by \<open>transform_response\<close> is a dict with fourteen keys, hence true in \<open>if curve\<close>.
\<close>

definition poll_cycle ::
  "(nat \<Rightarrow> string) \<Rightarrow> tracking_data response \<Rightarrow> yesterday_data response \<Rightarrow>
   history_entry list response \<Rightarrow> v4_provider \<Rightarrow> v4_provider" where
  "poll_cycle clock tracking_resp yesterday_resp history_resp self =
     (case fetch_curve (clock 0) tracking_resp yesterday_resp history_resp of
        None \<Rightarrow> self
      | Some curve \<Rightarrow>
          if v4_broadcast_callback self
          then let self1 = self\<lparr>v4_last_curve := Some curve\<rparr>;
                   self2 = store_curve_snapshot (clock 1) curve self1;
                   curve_with_history = add_history_to_curve self2 curve
               in self2\<lparr>v4_published := v4_published self2 @ [curve_with_history]\<rparr>
          else self)"


section \<open>The V5 curve provider (v5_curve_provider.py)\<close>

definition V5_HORIZONS :: "string list" where
  "V5_HORIZONS =
     [''+1H'', ''+2H'', ''+4H'', ''+6H'', ''+8H'', ''+12H'', ''+18H'', ''+24H'', ''+36H'', ''+48H'']"

record v5_data =
  v5d_forward_curve :: "(string \<times> pydict) list"
  v5d_fields :: pydict

record v5_point =
  v5p_horizon :: string
  v5p_target_price :: pyval
  v5p_pct_change :: pyval
  v5p_lower_90 :: pyval
  v5p_upper_90 :: pyval

record v5_curve =
  v5c_type :: string
  v5c_timestamp :: string
  v5c_model_timestamp :: pyval
  v5c_current_price :: pyval
  v5c_direction :: pyval
  v5c_confidence_level :: pyval
  v5c_confidence_score :: pyval
  v5c_curve :: "v5_point list"
  v5c_model :: string

definition v5_transform_point :: "v5_data \<Rightarrow> string \<Rightarrow> v5_point list \<Rightarrow> v5_point list" where
  "v5_transform_point data horizon curve_points =
     (case map_of (v5d_forward_curve data) horizon of
        None \<Rightarrow> curve_points
      | Some point \<Rightarrow>
          curve_points @
          [\<lparr>v5p_horizon = horizon,
            v5p_target_price = dict_get point ''target_price'' (PNum 0),
            v5p_pct_change = dict_get point ''pct_change'' (PNum 0),
            v5p_lower_90 = dict_get point ''lower_90'' (PNum 0),
            v5p_upper_90 = dict_get point ''upper_90'' (PNum 0)\<rparr>])"

definition v5_transform_response :: "string \<Rightarrow> v5_data \<Rightarrow> v5_curve" where
  "v5_transform_response now data =
     \<lparr>v5c_type = ''forward_curve'',
      v5c_timestamp = now,
      v5c_model_timestamp = dict_get (v5d_fields data) ''timestamp'' PNone,
      v5c_current_price = dict_get (v5d_fields data) ''current_price'' (PNum 0),
      v5c_direction = dict_get (v5d_fields data) ''direction'' (PStr ''NEUTRAL''),
      v5c_confidence_level = dict_get (v5d_fields data) ''confidence_level'' (PStr ''LOW''),
      v5c_confidence_score = dict_get (v5d_fields data) ''confidence_score'' (PNum 0),
      v5c_curve = fold (v5_transform_point data) V5_HORIZONS [],
      v5c_model = ''V5 Flash (LSTM+TFT)''\<rparr>"

definition v5_fetch_curve :: "string \<Rightarrow> v5_data response \<Rightarrow> v5_curve option" where
  "v5_fetch_curve now resp =
     (case resp of
        Raises e \<Rightarrow> None
      | Response status body \<Rightarrow>
          if status \<noteq> 200 then None
          else (case body of
                  None \<Rightarrow> None
                | Some data \<Rightarrow> Some (v5_transform_response now data)))"

record v5_provider =
  v5_broadcast_callback :: bool
  v5_last_curve :: "v5_curve option"
  v5_published :: "v5_curve list"

definition v5_poll_cycle :: "(nat \<Rightarrow> string) \<Rightarrow> v5_data response \<Rightarrow> v5_provider \<Rightarrow> v5_provider" where
  "v5_poll_cycle clock resp self =
     (case v5_fetch_curve (clock 0) resp of
        None \<Rightarrow> self
      | Some curve \<Rightarrow>
          if v5_broadcast_callback self
          then self\<lparr>v5_last_curve := Some curve, v5_published := v5_published self @ [curve]\<rparr>
          else self)"

section \<open>The accuracy store (accuracy_storage.py)\<close>

subsection \<open>Python operations on raw values\<close>

text \<open>
  \<open>store_v4_data\<close> takes a raw dict, so here every read can fail as in Python:
  only a dict has \<open>get\<close>, only a string has \<open>split\<close>, a list or a dict is not
  hashable, and arithmetic and ordering want numbers (a \<open>bool\<close> counts as 0 or 1).
\<close>

definition and_then :: "'e + 'a \<Rightarrow> ('a \<Rightarrow> 'e + 'b) \<Rightarrow> 'e + 'b" where
  "and_then m f = (case m of Inl e \<Rightarrow> Inl e | Inr x \<Rightarrow> f x)"

text \<open>\<open>obj.get(key, default)\<close> with a literal key.\<close>

fun py_get :: "pyval \<Rightarrow> string \<Rightarrow> pyval \<Rightarrow> py_error + pyval" where
  "py_get (PDict d) k dflt = Inr (dict_get d k dflt)"
| "py_get obj k dflt = Inl AttributeError"

text \<open>\<open>obj.get(key, default)\<close> with a computed key; the keys of a JSON dict are strings.\<close>

fun py_get_key :: "pyval \<Rightarrow> pyval \<Rightarrow> pyval \<Rightarrow> py_error + pyval" where
  "py_get_key (PDict d) (PStr k) dflt = Inr (dict_get d k dflt)"
| "py_get_key (PDict d) (PList xs) dflt = Inl TypeError"
| "py_get_key (PDict d) (PDict kvs) dflt = Inl TypeError"
| "py_get_key (PDict d) key dflt = Inr dflt"
| "py_get_key obj key dflt = Inl AttributeError"

text \<open>\<open>s.split('T')[0]\<close>: the text before the first \<open>T\<close>.\<close>

fun split_T_first :: "pyval \<Rightarrow> py_error + string" where
  "split_T_first (PStr s) = Inr (takeWhile (\<lambda>c. c \<noteq> CHR ''T'') s)"
| "split_T_first obj = Inl AttributeError"

text \<open>\<open>for x in obj\<close>: a dict gives its keys, a string its characters.\<close>

fun py_iter :: "pyval \<Rightarrow> py_error + pyval list" where
  "py_iter (PList xs) = Inr xs"
| "py_iter (PDict kvs) = Inr (map (\<lambda>kv. PStr (fst kv)) kvs)"
| "py_iter (PStr s) = Inr (map (\<lambda>c. PStr [c]) s)"
| "py_iter obj = Inl TypeError"

text \<open>\<open>d.items()\<close>.\<close>

fun py_items :: "pyval \<Rightarrow> py_error + (string \<times> pyval) list" where
  "py_items (PDict kvs) = Inr kvs"
| "py_items obj = Inl AttributeError"

fun py_num :: "pyval \<Rightarrow> py_error + real" where
  "py_num (PNum r) = Inr r"
| "py_num (PBool b) = Inr (if b then 1 else 0)"
| "py_num obj = Inl TypeError"

definition py_truediv :: "real \<Rightarrow> real \<Rightarrow> py_error + real" where
  "py_truediv a b = (if b = 0 then Inl ZeroDivisionError else Inr (a / b))"

text \<open>\<open>(abs(a - b) / a) * 100\<close> and \<open>100 -\<close> that, as the source computes the two metrics.\<close>

definition error_pct :: "real \<Rightarrow> pyval \<Rightarrow> py_error + real" where
  "error_pct target_price predicted =
     and_then (py_num predicted) (\<lambda>p.
     and_then (py_truediv \<bar>target_price - p\<bar> target_price) (\<lambda>q. Inr (q * 100)))"

subsection \<open>The SQLite database\<close>

text \<open>
  A cell holds what was bound to it: \<open>None\<close> as NULL, a number as REAL, a string as
  TEXT (the conversions of SQLite's column affinity are not modelled). Binding a list
  or a dict is refused by the \<open>sqlite3\<close> module. The tables are lists of rows, oldest
  row first. The two \<open>AUTOINCREMENT\<close> tables take their ids from a counter that
  holds the largest id given out so far.
\<close>

datatype sqlval = SqlNull | SqlReal real | SqlText string

fun bind_param :: "pyval \<Rightarrow> py_error + sqlval" where
  "bind_param PNone = Inr SqlNull"
| "bind_param (PBool b) = Inr (SqlReal (if b then 1 else 0))"
| "bind_param (PNum r) = Inr (SqlReal r)"
| "bind_param (PStr s) = Inr (SqlText s)"
| "bind_param (PList xs) = Inl InterfaceError"
| "bind_param (PDict kvs) = Inl InterfaceError"

fun bind_params :: "pyval list \<Rightarrow> py_error + sqlval list" where
  "bind_params [] = Inr []"
| "bind_params (v # vs) =
     and_then (bind_param v) (\<lambda>x. and_then (bind_params vs) (\<lambda>xs. Inr (x # xs)))"

record anchor_row =
  a_anchor_date :: sqlval
  a_anchor_timestamp :: sqlval
  a_anchor_price :: sqlval
  a_regime :: sqlval
  a_direction :: sqlval
  a_curve_quality :: sqlval
  a_created_at :: sqlval

record prediction_row =
  p_id :: nat
  p_anchor_date :: sqlval
  p_horizon :: sqlval
  p_original_price :: sqlval
  p_original_pct :: sqlval
  p_stabilized_price :: sqlval
  p_stabilized_pct :: sqlval
  p_actual_price :: sqlval
  p_actual_pct :: sqlval
  p_became_actual_at :: sqlval

record metric_row =
  m_id :: nat
  m_anchor_date :: sqlval
  m_horizon :: sqlval
  m_original_error_pct :: sqlval
  m_stabilized_error_pct :: sqlval
  m_original_accuracy :: sqlval
  m_stabilized_accuracy :: sqlval
  m_calculated_at :: sqlval

record database =
  daily_anchors :: "anchor_row list"
  predictions :: "prediction_row list"
  accuracy_metrics :: "metric_row list"
  predictions_seq :: nat
  accuracy_metrics_seq :: nat

definition empty_database :: database where
  "empty_database = \<lparr>daily_anchors = [], predictions = [], accuracy_metrics = [],
     predictions_seq = 0, accuracy_metrics_seq = 0\<rparr>"

text \<open>
  \<open>INSERT OR REPLACE\<close>: a NULL in a \<open>NOT NULL\<close> column without default aborts the
  statement; a row that collides on the primary key or on the \<open>UNIQUE\<close> pair is
  deleted before the new row goes in. A parameter tuple of the wrong length is refused.
\<close>

definition insert_or_replace_anchor :: "sqlval list \<Rightarrow> database \<Rightarrow> py_error + database" where
  "insert_or_replace_anchor params db =
     (case params of
        [anchor_date, anchor_timestamp, anchor_price, regime, direction, curve_quality, created_at] \<Rightarrow>
          if anchor_timestamp = SqlNull \<or> anchor_price = SqlNull \<or> created_at = SqlNull
          then Inl IntegrityError
          else Inr (db\<lparr>daily_anchors :=
                 filter (\<lambda>r. a_anchor_date r \<noteq> anchor_date) (daily_anchors db) @
                 [\<lparr>a_anchor_date = anchor_date, a_anchor_timestamp = anchor_timestamp,
                   a_anchor_price = anchor_price, a_regime = regime, a_direction = direction,
                   a_curve_quality = curve_quality, a_created_at = created_at\<rparr>]\<rparr>)
      | _ \<Rightarrow> Inl ProgrammingError)"

definition insert_or_replace_prediction :: "sqlval list \<Rightarrow> database \<Rightarrow> py_error + database" where
  "insert_or_replace_prediction params db =
     (case params of
        [anchor_date, horizon, original_price, original_pct, stabilized_price, stabilized_pct,
         actual_price, actual_pct, became_actual_at] \<Rightarrow>
          if anchor_date = SqlNull \<or> horizon = SqlNull \<or> original_price = SqlNull \<or>
             original_pct = SqlNull
          then Inl IntegrityError
          else Inr (db\<lparr>predictions :=
                 filter (\<lambda>r. \<not> (p_anchor_date r = anchor_date \<and> p_horizon r = horizon))
                   (predictions db) @
                 [\<lparr>p_id = Suc (predictions_seq db), p_anchor_date = anchor_date,
                   p_horizon = horizon, p_original_price = original_price,
                   p_original_pct = original_pct, p_stabilized_price = stabilized_price,
                   p_stabilized_pct = stabilized_pct, p_actual_price = actual_price,
                   p_actual_pct = actual_pct, p_became_actual_at = became_actual_at\<rparr>],
               predictions_seq := Suc (predictions_seq db)\<rparr>)
      | _ \<Rightarrow> Inl ProgrammingError)"

definition insert_or_replace_metric :: "sqlval list \<Rightarrow> database \<Rightarrow> py_error + database" where
  "insert_or_replace_metric params db =
     (case params of
        [anchor_date, horizon, original_error_pct, stabilized_error_pct, original_accuracy,
         stabilized_accuracy, calculated_at] \<Rightarrow>
          if anchor_date = SqlNull \<or> horizon = SqlNull \<or> original_error_pct = SqlNull \<or>
             original_accuracy = SqlNull \<or> calculated_at = SqlNull
          then Inl IntegrityError
          else Inr (db\<lparr>accuracy_metrics :=
                 filter (\<lambda>r. \<not> (m_anchor_date r = anchor_date \<and> m_horizon r = horizon))
                   (accuracy_metrics db) @
                 [\<lparr>m_id = Suc (accuracy_metrics_seq db), m_anchor_date = anchor_date,
                   m_horizon = horizon, m_original_error_pct = original_error_pct,
                   m_stabilized_error_pct = stabilized_error_pct,
                   m_original_accuracy = original_accuracy,
                   m_stabilized_accuracy = stabilized_accuracy,
                   m_calculated_at = calculated_at\<rparr>],
               accuracy_metrics_seq := Suc (accuracy_metrics_seq db)\<rparr>)
      | _ \<Rightarrow> Inl ProgrammingError)"

text \<open>
  A connection with its cursor: \<open>durable\<close> is the database file, \<open>pending\<close> the
  file as this connection sees it inside its open transaction, \<open>ticks\<close> the number of
  clock readings made so far in the call. A statement that raises leaves \<open>pending\<close>
  as the statements before it made it.
\<close>

record connection =
  durable :: database
  pending :: database
  ticks :: nat

definition sqlite3_connect :: "database \<Rightarrow> connection" where
  "sqlite3_connect db = \<lparr>durable = db, pending = db, ticks = 0\<rparr>"

definition commit :: "connection \<Rightarrow> connection" where
  "commit conn = conn\<lparr>durable := pending conn\<rparr>"

definition rollback :: "connection \<Rightarrow> connection" where
  "rollback conn = conn\<lparr>pending := durable conn\<rparr>"

definition execute ::
  "(sqlval list \<Rightarrow> database \<Rightarrow> py_error + database) \<Rightarrow> pyval list \<Rightarrow> connection \<Rightarrow>
   py_error option \<times> connection" where
  "execute statement params conn =
     (case and_then (bind_params params) (\<lambda>ps. statement ps (pending conn)) of
        Inl e \<Rightarrow> (Some e, conn)
      | Inr db \<Rightarrow> (None, conn\<lparr>pending := db\<rparr>))"

text \<open>
  \<open>datetime.now(UTC).isoformat()\<close>: \<open>clock k\<close> is the \<open>k\<close>-th reading of the call.
\<close>

definition now_isoformat :: "(nat \<Rightarrow> string) \<Rightarrow> connection \<Rightarrow> pyval \<times> connection" where
  "now_isoformat clock conn = (PStr (clock (ticks conn)), conn\<lparr>ticks := Suc (ticks conn)\<rparr>)"

subsection \<open>\<open>store_v4_data\<close>\<close>

text \<open>The metric part of the loop body, entered when \<open>is_actual and target_price > 0\<close>.\<close>

definition store_metric ::
  "(nat \<Rightarrow> string) \<Rightarrow> string \<Rightarrow> pyval \<Rightarrow> real \<Rightarrow> pyval \<Rightarrow> pyval \<Rightarrow> connection \<Rightarrow>
   py_error option \<times> connection" where
  "store_metric clock anchor_date horizon target_price original_price stabilized_price conn =
     (case error_pct target_price original_price of
        Inl e \<Rightarrow> (Some e, conn)
      | Inr original_error_pct \<Rightarrow>
          (case (if truthy stabilized_price
                 then and_then (error_pct target_price stabilized_price)
                        (\<lambda>e. Inr (PNum e, PNum (100 - e)))
                 else Inr (PNone, PNone)) of
             Inl e \<Rightarrow> (Some e, conn)
           | Inr (stabilized_error_pct, stabilized_accuracy) \<Rightarrow>
               (case now_isoformat clock conn of
                  (calculated_at, conn1) \<Rightarrow>
                    execute insert_or_replace_metric
                      [PStr anchor_date, horizon, PNum original_error_pct, stabilized_error_pct,
                       PNum (100 - original_error_pct), stabilized_accuracy, calculated_at]
                      conn1)))"

text \<open>The part of the loop body under \<open>if original_price:\<close>.\<close>

definition store_prediction ::
  "(nat \<Rightarrow> string) \<Rightarrow> string \<Rightarrow> pyval \<Rightarrow> pyval \<Rightarrow> pyval \<Rightarrow> pyval \<Rightarrow> pyval \<Rightarrow> pyval \<Rightarrow>
   pyval \<Rightarrow> pyval \<Rightarrow> connection \<Rightarrow> py_error option \<times> connection" where
  "store_prediction clock anchor_date horizon target_price pct_change is_actual
       original_price original_pct stabilized_price stabilized_pct conn =
     (case (if truthy is_actual then now_isoformat clock conn else (PNone, conn)) of
        (became_actual_at, conn1) \<Rightarrow>
          (case execute insert_or_replace_prediction
                  [PStr anchor_date, horizon, original_price, original_pct, stabilized_price,
                   stabilized_pct,
                   if truthy is_actual then target_price else PNone,
                   if truthy is_actual then pct_change else PNone,
                   became_actual_at]
                  conn1 of
             (Some e, conn2) \<Rightarrow> (Some e, conn2)
           | (None, conn2) \<Rightarrow>
               if truthy is_actual
               then (case py_num target_price of
                       Inl e \<Rightarrow> (Some e, conn2)
                     | Inr t \<Rightarrow>
                         if t > 0
                         then store_metric clock anchor_date horizon t original_price
                                stabilized_price conn2
                         else (None, conn2))
               else (None, conn2)))"

text \<open>What the loop body reads from the point and from \<open>original_predictions\<close>.\<close>

record point_reads =
  r_horizon :: pyval
  r_target_price :: pyval
  r_pct_change :: pyval
  r_is_actual :: pyval
  r_original_price :: pyval
  r_original_pct :: pyval
  r_stabilized_price :: pyval
  r_stabilized_pct :: pyval

definition read_point :: "pyval \<Rightarrow> pyval \<Rightarrow> py_error + point_reads option" where
  "read_point original_preds point =
     and_then (py_get point ''horizon'' PNone) (\<lambda>horizon.
     if \<not> truthy horizon then Inr None
     else
     and_then (py_get point ''target_price'' (PNum 0)) (\<lambda>target_price.
     and_then (py_get point ''pct_change'' (PNum 0)) (\<lambda>pct_change.
     and_then (py_get point ''is_actual'' (PBool False)) (\<lambda>is_actual.
     and_then (py_get_key original_preds horizon (PDict [])) (\<lambda>orig.
     and_then (py_get orig ''original_price'' PNone) (\<lambda>original_price.
     and_then (py_get orig ''original_pct'' PNone) (\<lambda>original_pct.
     and_then (py_get orig ''stabilized_price'' PNone) (\<lambda>stabilized_price.
     and_then (py_get orig ''stabilized_pct'' PNone) (\<lambda>stabilized_pct.
       Inr (Some \<lparr>r_horizon = horizon, r_target_price = target_price,
                  r_pct_change = pct_change, r_is_actual = is_actual,
                  r_original_price = original_price, r_original_pct = original_pct,
                  r_stabilized_price = stabilized_price,
                  r_stabilized_pct = stabilized_pct\<rparr>))))))))))"

text \<open>One round of \<open>for point in forward_curve\<close>.\<close>

definition store_point ::
  "(nat \<Rightarrow> string) \<Rightarrow> string \<Rightarrow> pyval \<Rightarrow> pyval \<Rightarrow> connection \<Rightarrow> py_error option \<times> connection" where
  "store_point clock anchor_date original_preds point conn =
     (case read_point original_preds point of
        Inl e \<Rightarrow> (Some e, conn)
      | Inr None \<Rightarrow> (None, conn)
      | Inr (Some r) \<Rightarrow>
          if truthy (r_original_price r)
          then store_prediction clock anchor_date (r_horizon r) (r_target_price r)
                 (r_pct_change r) (r_is_actual r) (r_original_price r) (r_original_pct r)
                 (r_stabilized_price r) (r_stabilized_pct r) conn
          else (None, conn))"

text \<open>A loop whose body can raise: the first exception ends it.\<close>

fun for_each ::
  "('a \<Rightarrow> 's \<Rightarrow> py_error option \<times> 's) \<Rightarrow> 'a list \<Rightarrow> 's \<Rightarrow> py_error option \<times> 's" where
  "for_each body [] s = (None, s)"
| "for_each body (x # xs) s =
     (case body x s of
        (Some e, s') \<Rightarrow> (Some e, s')
      | (None, s') \<Rightarrow> for_each body xs s')"

text \<open>The list comprehension that turns a \<open>forward_curve\<close> dict into points.\<close>

fun points_of_items :: "(string \<times> pyval) list \<Rightarrow> py_error + pyval list" where
  "points_of_items [] = Inr []"
| "points_of_items ((horizon, data) # rest) =
     and_then (py_get data ''price'' PNone) (\<lambda>price.
     and_then (py_get data ''pct_change'' PNone) (\<lambda>pct_change.
     and_then (py_get data ''is_actual'' (PBool False)) (\<lambda>is_actual.
     and_then (points_of_items rest) (\<lambda>points.
       Inr (PDict [(''horizon'', PStr horizon), (''target_price'', price),
                   (''pct_change'', pct_change), (''is_actual'', is_actual)] # points)))))"

text \<open>The points the loop runs over: \<open>curve\<close>, or else the converted \<open>forward_curve\<close>.\<close>

definition curve_points :: "pyval \<Rightarrow> py_error + pyval list" where
  "curve_points curve_data =
     and_then (py_get curve_data ''curve'' (PList [])) (\<lambda>forward_curve.
     if \<not> truthy forward_curve
     then and_then (py_get curve_data ''forward_curve'' (PDict [])) (\<lambda>fc_dict.
          and_then (py_items fc_dict) points_of_items)
     else py_iter forward_curve)"

text \<open>The body of the \<open>try\<close> block, up to and without \<open>conn.commit()\<close>.\<close>

definition store_body ::
  "(nat \<Rightarrow> string) \<Rightarrow> pyval \<Rightarrow> pyval \<Rightarrow> string \<Rightarrow> connection \<Rightarrow> py_error option \<times> connection" where
  "store_body clock curve_data anchor_timestamp anchor_date conn =
     (case and_then (py_get curve_data ''current_price'' (PNum 0)) (\<lambda>current_price.
           and_then (py_get curve_data ''regime'' (PStr ''UNKNOWN'')) (\<lambda>regime.
           and_then (py_get curve_data ''direction'' (PStr ''UNKNOWN'')) (\<lambda>direction.
           and_then (py_get curve_data ''curve_quality'' (PNum 0)) (\<lambda>curve_quality.
             Inr [PStr anchor_date, anchor_timestamp, current_price, regime, direction,
                  curve_quality])))) of
        Inl e \<Rightarrow> (Some e, conn)
      | Inr anchor_params \<Rightarrow>
          (case now_isoformat clock conn of
             (created_at, conn1) \<Rightarrow>
               (case execute insert_or_replace_anchor (anchor_params @ [created_at]) conn1 of
                  (Some e, conn2) \<Rightarrow> (Some e, conn2)
                | (None, conn2) \<Rightarrow>
                    (case and_then (curve_points curve_data) (\<lambda>forward_curve.
                          and_then (py_get curve_data ''original_predictions'' (PDict []))
                            (\<lambda>original_preds. Inr (forward_curve, original_preds))) of
                       Inl e \<Rightarrow> (Some e, conn2)
                     | Inr (forward_curve, original_preds) \<Rightarrow>
                         for_each (store_point clock anchor_date original_preds)
                           forward_curve conn2))))"

text \<open>
  How a call ends: it returns before touching the database, it raises before the
  \<open>try\<close> block, it commits, or the \<open>except\<close> branch rolls back (the exception is
  printed and swallowed).
\<close>

datatype outcome = Returned_early | Raised py_error | Committed | Rolled_back py_error

definition store_v4_data :: "(nat \<Rightarrow> string) \<Rightarrow> pyval \<Rightarrow> database \<Rightarrow> outcome \<times> database" where
  "store_v4_data clock curve_data db =
     (if \<not> truthy curve_data then (Returned_early, db)
      else case py_get curve_data ''anchor_timestamp'' PNone of
             Inl e \<Rightarrow> (Raised e, db)
           | Inr anchor_timestamp \<Rightarrow>
               if \<not> truthy anchor_timestamp then (Returned_early, db)
               else (case split_T_first anchor_timestamp of
                       Inl e \<Rightarrow> (Raised e, db)
                     | Inr anchor_date \<Rightarrow>
                         (case store_body clock curve_data anchor_timestamp anchor_date
                                 (sqlite3_connect db) of
                            (None, conn) \<Rightarrow> (Committed, durable (commit conn))
                          | (Some e, conn) \<Rightarrow> (Rolled_back e, durable (rollback conn)))))"

section \<open>Notions used in the statements\<close>

subsection \<open>Sequences of calls\<close>

text \<open>\<open>_store_curve_snapshot\<close> called once per pair of a clock reading and a curve.\<close>

fun store_curve_snapshots :: "(string \<times> curve_point curve) list \<Rightarrow> v4_provider \<Rightarrow> v4_provider" where
  "store_curve_snapshots [] self = self"
| "store_curve_snapshots ((now, curve) # rest) self =
     store_curve_snapshots rest (store_curve_snapshot now curve self)"

subsection \<open>Stabilization\<close>

text \<open>
  A horizon is pending in a history entry when the entry has data for it that is not
  marked actual (the test of the inner loop); \<open>history_price\<close> is the price there.
\<close>

definition pending_in :: "string \<Rightarrow> history_entry \<Rightarrow> bool" where
  "pending_in horizon entry =
     (let h_data = dict_get (he_forward_curve entry) horizon []
      in h_data \<noteq> [] \<and> \<not> truthy (dict_get h_data ''is_actual'' (PBool False)))"

definition history_price :: "string \<Rightarrow> history_entry \<Rightarrow> pyval" where
  "history_price horizon entry =
     dict_get (dict_get (he_forward_curve entry) horizon []) ''price'' PNone"

text \<open>
  The stabilized price of a horizon as \<open>_transform_response\<close> reads it:
  \<open>stabilized_predictions.get(horizon, {}).get("price")\<close>.
\<close>

definition stabilized_price_for ::
  "history_entry list option \<Rightarrow> (string \<times> pydict) list \<Rightarrow> string \<Rightarrow> pyval" where
  "stabilized_price_for history_data current_curve horizon =
     st_price (dict_get (extract_stabilized_from_history history_data current_curve)
       horizon no_stabilized)"

text \<open>The entry that one round of the outer loop assigns to its horizon, if it assigns one.\<close>

definition stabilized_value ::
  "history_entry list \<Rightarrow> (string \<times> pydict) list \<Rightarrow> string \<Rightarrow> stabilized_entry option" where
  "stabilized_value sorted_history current_curve horizon =
     (if truthy (dict_get (dict_get current_curve horizon []) ''is_actual'' (PBool False))
      then (case filter (pending_in horizon) sorted_history of
              [] \<Rightarrow> None
            | p # ps \<Rightarrow>
                if history_price horizon (last (p # ps)) \<noteq> PNone
                then Some \<lparr>st_price = history_price horizon (last (p # ps)),
                           st_timestamp = he_timestamp (last (p # ps))\<rparr>
                else None)
      else Some \<lparr>st_price = dict_get (dict_get current_curve horizon []) ''price'' PNone,
                 st_timestamp = None\<rparr>)"

text \<open>
  A ledger snapshot records a horizon when the horizon was pending at capture time;
  \<open>snapshot_price\<close> is the price recorded there.
\<close>

definition recorded_in :: "string \<Rightarrow> snapshot \<Rightarrow> bool" where
  "recorded_in horizon snap = (map_of (s_predictions snap) horizon \<noteq> None)"

definition snapshot_price :: "string \<Rightarrow> snapshot \<Rightarrow> pyval" where
  "snapshot_price horizon snap =
     pe_price (dict_get (s_predictions snap) horizon \<lparr>pe_price = PNone, pe_original_price = PNone\<rparr>)"

subsection \<open>Upstream calls\<close>

text \<open>An upstream call failed: it raised, or it answered with a status other than 200.\<close>

definition call_failed :: "'a response \<Rightarrow> bool" where
  "call_failed resp = (case resp of Raises e \<Rightarrow> True | Response status body \<Rightarrow> status \<noteq> 200)"

subsection \<open>The accuracy store\<close>

text \<open>
  A field of a raw value as the loop reads it (\<open>dflt\<close> when the value is no dict or
  lacks the key), the test that a point names the horizon \<open>h\<close> (the loop skips an empty
  label), and what \<open>original_predictions\<close> carries for a horizon and a field.
\<close>

definition field_of :: "pyval \<Rightarrow> string \<Rightarrow> pyval \<Rightarrow> pyval" where
  "field_of obj k dflt = (case py_get obj k dflt of Inl e \<Rightarrow> dflt | Inr v \<Rightarrow> v)"

definition point_for :: "string \<Rightarrow> pyval \<Rightarrow> bool" where
  "point_for h point = (h \<noteq> [] \<and> py_get point ''horizon'' PNone = Inr (PStr h))"

definition original_of :: "pyval \<Rightarrow> string \<Rightarrow> string \<Rightarrow> pyval" where
  "original_of original_preds h field =
     (case py_get_key original_preds (PStr h) (PDict []) of
        Inl e \<Rightarrow> PNone
      | Inr orig \<Rightarrow> field_of orig field PNone)"

definition original_predictions_of :: "pyval \<Rightarrow> pyval" where
  "original_predictions_of curve_data = field_of curve_data ''original_predictions'' (PDict [])"

text \<open>The anchor date of a call: \<open>anchor_timestamp.split('T')[0]\<close>, when there is one.\<close>

definition anchor_date_of :: "pyval \<Rightarrow> string option" where
  "anchor_date_of curve_data =
     (case py_get curve_data ''anchor_timestamp'' PNone of
        Inl e \<Rightarrow> None
      | Inr anchor_timestamp \<Rightarrow>
          (case split_T_first anchor_timestamp of Inl e \<Rightarrow> None | Inr d \<Rightarrow> Some d))"

text \<open>The rows of a pair of anchor date and horizon, and the \<open>UNIQUE\<close> key of a row.\<close>

definition prediction_rows :: "string \<Rightarrow> string \<Rightarrow> database \<Rightarrow> prediction_row list" where
  "prediction_rows d h db =
     filter (\<lambda>r. p_anchor_date r = SqlText d \<and> p_horizon r = SqlText h) (predictions db)"

definition metric_rows :: "string \<Rightarrow> string \<Rightarrow> database \<Rightarrow> metric_row list" where
  "metric_rows d h db =
     filter (\<lambda>r. m_anchor_date r = SqlText d \<and> m_horizon r = SqlText h) (accuracy_metrics db)"

definition prediction_key :: "prediction_row \<Rightarrow> sqlval \<times> sqlval" where
  "prediction_key r = (p_anchor_date r, p_horizon r)"

text \<open>A sequence of calls, each with its own clock readings, on the same database file.\<close>

fun store_v4_data_calls :: "((nat \<Rightarrow> string) \<times> pyval) list \<Rightarrow> database \<Rightarrow> database" where
  "store_v4_data_calls [] db = db"
| "store_v4_data_calls ((clock, curve_data) # rest) db =
     store_v4_data_calls rest (snd (store_v4_data clock curve_data db))"

subsection \<open>Example data\<close>

text \<open>
  The scenario of the specification: anchor 2025-06-01T13:00:00Z at 65000, horizon +1H
  predicted 65200 at first, then 65150 and 65180, and realized at 65170.
\<close>

definition example_horizon_data :: "real \<Rightarrow> bool \<Rightarrow> pydict" where
  "example_horizon_data price actual =
     [(''price'', PNum price), (''pct_change'', PNum 0.31), (''is_actual'', PBool actual)]"

definition example_history :: "history_entry list" where
  "example_history =
     [\<lparr>he_timestamp = Some ''2025-06-01T13:05:00Z'',
       he_forward_curve = [(''+1H'', example_horizon_data 65150 False)]\<rparr>,
      \<lparr>he_timestamp = Some ''2025-06-01T13:10:00Z'',
       he_forward_curve = [(''+1H'', example_horizon_data 65180 False)]\<rparr>,
      \<lparr>he_timestamp = Some ''2025-06-01T14:00:00Z'',
       he_forward_curve = [(''+1H'', example_horizon_data 65170 True)]\<rparr>]"

definition example_tracking :: "real \<Rightarrow> bool \<Rightarrow> tracking_data" where
  "example_tracking price actual =
     \<lparr>td_forward_curve = [(''+1H'', example_horizon_data price actual)],
      td_original_predictions =
        [(''+1H'', [(''original_price'', PNum 65200), (''original_pct'', PNum 0.31)])],
      td_fields = [(''anchor_timestamp'', PStr ''2025-06-01T13:00:00Z''),
                   (''current_price'', PNum 65000)]\<rparr>"

definition example_clock :: "nat \<Rightarrow> string" where
  "example_clock k = (if k = 0 then ''2025-06-01T13:05:01Z'' else ''2025-06-01T13:05:02Z'')"

text \<open>
  Calls of \<open>store_v4_data\<close> for the scenario: one point for +1H with the given target
  price, realized flag and original price; the stabilized price is 65180.
\<close>

definition example_curve_data :: "real \<Rightarrow> bool \<Rightarrow> real \<Rightarrow> pyval" where
  "example_curve_data price actual original =
     PDict [(''anchor_timestamp'', PStr ''2025-06-01T13:00:00Z''),
            (''current_price'', PNum 65000),
            (''curve'', PList [PDict [(''horizon'', PStr ''+1H''), (''target_price'', PNum price),
                                      (''pct_change'', PNum 0.26), (''is_actual'', PBool actual)]]),
            (''original_predictions'',
               PDict [(''+1H'', PDict [(''original_price'', PNum original),
                                       (''original_pct'', PNum 0.31),
                                       (''stabilized_price'', PNum 65180),
                                       (''stabilized_pct'', PNum 0.28)])])]"

text \<open>
  A call whose second point is marked realized but has no target price (\<open>null\<close>): the
  comparison \<open>target_price > 0\<close> raises after two rows have been written.
\<close>

definition example_failing_curve_data :: pyval where
  "example_failing_curve_data =
     PDict [(''anchor_timestamp'', PStr ''2025-06-01T13:00:00Z''),
            (''current_price'', PNum 65000),
            (''curve'', PList [PDict [(''horizon'', PStr ''+1H''), (''target_price'', PNum 65150),
                                      (''pct_change'', PNum 0.23), (''is_actual'', PBool False)],
                               PDict [(''horizon'', PStr ''+2H''), (''target_price'', PNone),
                                      (''pct_change'', PNum 0.4), (''is_actual'', PBool True)]]),
            (''original_predictions'',
               PDict [(''+1H'', PDict [(''original_price'', PNum 65200),
                                       (''original_pct'', PNum 0.31)]),
                      (''+2H'', PDict [(''original_price'', PNum 65260),
                                       (''original_pct'', PNum 0.4)])])]"

definition example_store_clock :: "nat \<Rightarrow> nat \<Rightarrow> string" where
  "example_store_clock minute k =
     (if minute = 0 then
        (if k = 0 then ''2025-06-01T14:00:07Z'' else if k = 1 then ''2025-06-01T14:00:08Z''
         else ''2025-06-01T14:00:09Z'')
      else if minute = 5 then
        (if k = 0 then ''2025-06-01T14:05:07Z'' else if k = 1 then ''2025-06-01T14:05:08Z''
         else ''2025-06-01T14:05:09Z'')
      else
        (if k = 0 then ''2025-06-01T14:10:07Z'' else if k = 1 then ''2025-06-01T14:10:08Z''
         else ''2025-06-01T14:10:09Z''))"

definition example_point :: "real \<Rightarrow> bool \<Rightarrow> curve_point" where
  "example_point price actual =
     \<lparr>cp_horizon = ''+1H'', cp_target_price = PNum price, cp_pct_change = PNum 0.31,
      cp_lower_90 = PNum 0, cp_upper_90 = PNum 0, cp_is_actual = PBool actual,
      cp_original_price = PNum 65200, cp_original_pct = PNum 0.31,
      cp_yesterday_price = PNone, cp_stabilized_price = PNone,
      cp_stabilized_timestamp = None\<rparr>"

definition example_ledger :: "snapshot list" where
  "example_ledger =
     [\<lparr>s_timestamp = ''2025-06-01T13:05:02Z'', s_hours_elapsed = PNum 0,
       s_anchor_timestamp = PStr ''2025-06-01T13:00:00Z'',
       s_predictions = [(''+1H'', \<lparr>pe_price = PNum 65150, pe_original_price = PNum 65200\<rparr>)]\<rparr>,
      \<lparr>s_timestamp = ''2025-06-01T13:10:02Z'', s_hours_elapsed = PNum 0,
       s_anchor_timestamp = PStr ''2025-06-01T13:00:00Z'',
       s_predictions = [(''+1H'', \<lparr>pe_price = PNum 65180, pe_original_price = PNum 65200\<rparr>)]\<rparr>,
      \<lparr>s_timestamp = ''2025-06-01T14:00:02Z'', s_hours_elapsed = PNum 1,
       s_anchor_timestamp = PStr ''2025-06-01T13:00:00Z'',
       s_predictions = []\<rparr>]"

definition example_curve :: "real \<Rightarrow> bool \<Rightarrow> curve_point curve" where
  "example_curve price actual =
     transform_response ''2025-06-01T13:05:01Z'' (example_tracking price actual) None
       (Some example_history)"

definition example_appends :: "(string \<times> curve_point curve) list" where
  "example_appends =
     [(''2025-06-01T13:05:02Z'', example_curve 65150 False),
      (''2025-06-01T13:10:02Z'', example_curve 65180 False),
      (''2025-06-01T13:15:02Z'', example_curve 65175 False),
      (''2025-06-01T13:20:02Z'', example_curve 65190 False),
      (''2025-06-01T13:25:02Z'', example_curve 65160 False),
      (''2025-06-01T13:30:02Z'', example_curve 65185 False),
      (''2025-06-01T14:00:02Z'', example_curve 65170 True)]"

section \<open>The ledger is a bounded FIFO\<close>

lemma slice_last_pos: "0 < k \<Longrightarrow> slice_last k xs = drop (length xs - k) xs"
  by (simp add: slice_last_def)

lemma store_curve_snapshot_history:
  "v4_curve_history (store_curve_snapshot now curve self) =
     (let h = v4_curve_history self @ [make_snapshot now curve]
      in if length h > v4_max_history_size self
         then slice_last (v4_max_history_size self) h else h)"
  by (simp add: store_curve_snapshot_def Let_def)

lemma store_curve_snapshot_max:
  "v4_max_history_size (store_curve_snapshot now curve self) = v4_max_history_size self"
  by (simp add: store_curve_snapshot_def Let_def)

lemma store_curve_snapshots_last:
  assumes "0 < v4_max_history_size self"
    and "length (v4_curve_history self) \<le> v4_max_history_size self"
  shows "v4_curve_history (store_curve_snapshots cs self) =
     (let h = v4_curve_history self @ map (\<lambda>(now, c). make_snapshot now c) cs
      in drop (length h - v4_max_history_size self) h)"
  using assms
proof (induction cs arbitrary: self)
  case Nil
  then show ?case by simp
next
  case (Cons a cs)
  obtain now c where a: "a = (now, c)" by (cases a)
  let ?s = "store_curve_snapshot now c self"
  let ?K = "v4_max_history_size self"
  let ?H = "v4_curve_history self @ [make_snapshot now c]"
  let ?M = "map (\<lambda>(now, c). make_snapshot now c) cs"
  let ?d = "Suc (length (v4_curve_history self)) - ?K"
  have m: "v4_max_history_size ?s = ?K"
    by (simp add: store_curve_snapshot_max)
  have h: "v4_curve_history ?s = drop ?d ?H"
    using Cons.prems by (simp add: store_curve_snapshot_history Let_def slice_last_pos)
  have l: "length (v4_curve_history ?s) \<le> v4_max_history_size ?s"
    using Cons.prems by (simp add: h m)
  have "v4_curve_history (store_curve_snapshots (a # cs) self) =
        v4_curve_history (store_curve_snapshots cs ?s)"
    by (simp add: a)
  also have "\<dots> = drop (length (drop ?d ?H @ ?M) - ?K) (drop ?d ?H @ ?M)"
    using Cons.IH[of ?s] Cons.prems l by (simp add: m h Let_def)
  also have "drop ?d ?H @ ?M = drop ?d (?H @ ?M)"
    using Cons.prems by simp
  also have "drop (length (drop ?d (?H @ ?M)) - ?K) (drop ?d (?H @ ?M)) =
             drop (length (?H @ ?M) - ?K) (?H @ ?M)"
  proof -
    have ar: "length (drop ?d (?H @ ?M)) - ?K + ?d = length (?H @ ?M) - ?K"
      using Cons.prems by simp
    show ?thesis by (simp only: drop_drop ar)
  qed
  finally show ?case by (simp add: a Let_def)
qed

text \<open>
  Claim C4. With a capacity \<open>K > 0\<close> the ledger never holds more than \<open>K\<close>
  snapshots: starting within capacity, after any sequence of appends it holds the last
  \<open>K\<close> of all snapshots, in append order. In particular, \<open>K + 5\<close> appends to an
  empty ledger leave exactly the snapshots of the last \<open>K\<close> appends, in their order:
  the five oldest are gone. (The provider sets the capacity to 300.)
\<close>

theorem ledger_fifo_capacity:
  assumes "0 < K"
    and "v4_max_history_size self = K"
    and "length (v4_curve_history self) \<le> K"
  shows "length (v4_curve_history (store_curve_snapshots cs self)) \<le> K \<and>
         v4_curve_history (store_curve_snapshots cs self) =
           drop (length (v4_curve_history self) + length cs - K)
             (v4_curve_history self @ map (\<lambda>(now, c). make_snapshot now c) cs) \<and>
         (v4_curve_history self = [] \<and> length cs = K + 5 \<longrightarrow>
            v4_curve_history (store_curve_snapshots cs self) =
              map (\<lambda>(now, c). make_snapshot now c) (drop 5 cs) \<and>
            length (v4_curve_history (store_curve_snapshots cs self)) = K)"
proof -
  have eq: "v4_curve_history (store_curve_snapshots cs self) =
           drop (length (v4_curve_history self) + length cs - K)
             (v4_curve_history self @ map (\<lambda>(now, c). make_snapshot now c) cs)"
    using store_curve_snapshots_last[of self cs] assms by (simp add: Let_def)
  have len: "length (v4_curve_history (store_curve_snapshots cs self)) \<le> K"
    by (simp add: eq)
  have five: "v4_curve_history (store_curve_snapshots cs self) =
              map (\<lambda>(now, c). make_snapshot now c) (drop 5 cs) \<and>
            length (v4_curve_history (store_curve_snapshots cs self)) = K"
    if "v4_curve_history self = []" "length cs = K + 5"
    using that by (simp add: eq drop_map)
  show ?thesis using eq len five by blast
qed

theorem ledger_fifo_capacity_witness:
  "(0::nat) < 2 \<and>
   v4_max_history_size (v4_init\<lparr>v4_max_history_size := 2\<rparr>) = 2 \<and>
   length (v4_curve_history (v4_init\<lparr>v4_max_history_size := 2\<rparr>)) \<le> 2 \<and>
   length example_appends = 2 + 5 \<and>
   v4_curve_history (store_curve_snapshots example_appends (v4_init\<lparr>v4_max_history_size := 2\<rparr>)) =
     [make_snapshot ''2025-06-01T13:30:02Z'' (example_curve 65185 False),
      make_snapshot ''2025-06-01T14:00:02Z'' (example_curve 65170 True)]"
  using ledger_fifo_capacity[of 2 "v4_init\<lparr>v4_max_history_size := 2\<rparr>" example_appends]
  by (simp add: v4_init_def example_appends_def)

section \<open>A failed fetch leaves the poller as it was\<close>

text \<open>
  Claim C7. When the fetch of a poll round gives no curve, the provider after the round
  is the provider before it: the ledger, the last curve and the list of published
  messages are the same. This holds for the V4 and for the V5 poller.
\<close>

theorem poll_cycle_failed_fetch_unchanged:
  "(fetch_curve (clock 0) tracking_resp yesterday_resp history_resp = None \<longrightarrow>
      poll_cycle clock tracking_resp yesterday_resp history_resp self = self) \<and>
   (v5_fetch_curve (clock 0) resp = None \<longrightarrow> v5_poll_cycle clock resp self5 = self5)"
  by (simp add: poll_cycle_def v5_poll_cycle_def)

theorem poll_cycle_failed_fetch_unchanged_witness:
  "fetch_curve (example_clock 0) (Raises TimeoutError) (Raises TimeoutError)
     (Raises TimeoutError) = None \<and>
   poll_cycle example_clock (Raises TimeoutError) (Raises TimeoutError) (Raises TimeoutError)
     (v4_init\<lparr>v4_broadcast_callback := True\<rparr>) = v4_init\<lparr>v4_broadcast_callback := True\<rparr> \<and>
   v5_fetch_curve (example_clock 0) (Response 503 None) = None \<and>
   v5_poll_cycle example_clock (Response 503 None)
     \<lparr>v5_broadcast_callback = True, v5_last_curve = None, v5_published = []\<rparr> =
     \<lparr>v5_broadcast_callback = True, v5_last_curve = None, v5_published = []\<rparr>"
  using poll_cycle_failed_fetch_unchanged[of example_clock "Raises TimeoutError"
      "Raises TimeoutError" "Raises TimeoutError" "v4_init\<lparr>v4_broadcast_callback := True\<rparr>"
      "Response 503 None"
      "\<lparr>v5_broadcast_callback = True, v5_last_curve = None, v5_published = []\<rparr>"]
  by (simp add: fetch_curve_def v5_fetch_curve_def)

section \<open>What a fetch returns\<close>

lemma optional_body_failed: "call_failed resp \<Longrightarrow> optional_body resp = Inr None"
  by (cases resp) (simp_all add: call_failed_def optional_body_def)

lemma optional_body_decoded: "optional_body (Response 200 (Some d)) = Inr (Some d)"
  by (simp add: optional_body_def)

lemma fetch_curve_primary_ok:
  "optional_body yesterday_resp = Inr yesterday \<Longrightarrow> optional_body history_resp = Inr history \<Longrightarrow>
   fetch_curve now (Response 200 (Some data)) yesterday_resp history_resp =
     Some (transform_response now data yesterday history)"
  by (simp add: fetch_curve_def)

text \<open>
  Claim C6 fails as stated: the failure value is a bare \<open>None\<close>, the same for a timeout
  and for a status 500, so it carries no reason tag.
\<close>

theorem fetch_curve_reason_tag_counterexample:
  "fetch_curve ''2025-06-01T13:05:01Z'' (Raises TimeoutError) (Raises TimeoutError)
     (Raises TimeoutError) = None \<and>
   fetch_curve ''2025-06-01T13:05:01Z'' (Response 500 None) (Raises TimeoutError)
     (Raises TimeoutError) = None \<and>
   v5_fetch_curve ''2025-06-01T13:05:01Z'' (Raises TimeoutError) = None \<and>
   v5_fetch_curve ''2025-06-01T13:05:01Z'' (Response 500 None) = None"
  by (simp add: fetch_curve_def v5_fetch_curve_def)

text \<open>
  Claim C6, amended. A fetch gives a curve or \<open>None\<close>; the reason of a failure is
  logged, not returned. It gives \<open>None\<close> when the primary call raises (a timeout
  included), answers with a status other than 200, or answers with a body that does not
  decode. When the primary call answers 200 with a decodable body, an optional call that
  raises or answers with another status only degrades the curve: the fetch returns the
  curve built without that call's data, and \<open>has_yesterday\<close> or \<open>has_history\<close> is
  false. The V5 fetch has the primary call only.
\<close>

theorem fetch_curve_failure_and_degradation:
  "fetch_curve now (Raises e) yesterday_resp history_resp = None \<and>
   (status \<noteq> 200 \<longrightarrow> fetch_curve now (Response status body) yesterday_resp history_resp = None) \<and>
   fetch_curve now (Response 200 None) yesterday_resp history_resp = None \<and>
   (call_failed yesterday_resp \<and> call_failed history_resp \<longrightarrow>
      fetch_curve now (Response 200 (Some data)) yesterday_resp history_resp =
        Some (transform_response now data None None)) \<and>
   (call_failed yesterday_resp \<longrightarrow>
      fetch_curve now (Response 200 (Some data)) yesterday_resp (Response 200 (Some hist)) =
        Some (transform_response now data None (Some hist))) \<and>
   (call_failed history_resp \<longrightarrow>
      fetch_curve now (Response 200 (Some data)) (Response 200 (Some yest)) history_resp =
        Some (transform_response now data (Some yest) None)) \<and>
   fetch_curve now (Response 200 (Some data)) (Response 200 (Some yest))
       (Response 200 (Some hist)) =
     Some (transform_response now data (Some yest) (Some hist)) \<and>
   \<not> c_has_yesterday (transform_response now data None history) \<and>
   \<not> c_has_history (transform_response now data yesterday None) \<and>
   v5_fetch_curve now (Raises e) = None \<and>
   (status \<noteq> 200 \<longrightarrow> v5_fetch_curve now (Response status body5) = None) \<and>
   v5_fetch_curve now (Response 200 None) = None \<and>
   v5_fetch_curve now (Response 200 (Some data5)) = Some (v5_transform_response now data5)"
proof -
  have primary: "fetch_curve now (Raises e) yesterday_resp history_resp = None"
    "status \<noteq> 200 \<longrightarrow> fetch_curve now (Response status body) yesterday_resp history_resp = None"
    "fetch_curve now (Response 200 None) yesterday_resp history_resp = None"
    by (simp_all add: fetch_curve_def)
  have degraded:
    "call_failed yesterday_resp \<and> call_failed history_resp \<longrightarrow>
      fetch_curve now (Response 200 (Some data)) yesterday_resp history_resp =
        Some (transform_response now data None None)"
    "call_failed yesterday_resp \<longrightarrow>
      fetch_curve now (Response 200 (Some data)) yesterday_resp (Response 200 (Some hist)) =
        Some (transform_response now data None (Some hist))"
    "call_failed history_resp \<longrightarrow>
      fetch_curve now (Response 200 (Some data)) (Response 200 (Some yest)) history_resp =
        Some (transform_response now data (Some yest) None)"
    "fetch_curve now (Response 200 (Some data)) (Response 200 (Some yest))
       (Response 200 (Some hist)) =
     Some (transform_response now data (Some yest) (Some hist))"
    by (simp_all add: fetch_curve_primary_ok optional_body_failed optional_body_decoded)
  have flags: "\<not> c_has_yesterday (transform_response now data None history)"
    "\<not> c_has_history (transform_response now data yesterday None)"
    by (simp_all add: transform_response_def Let_def)
  have v5: "v5_fetch_curve now (Raises e) = None"
    "status \<noteq> 200 \<longrightarrow> v5_fetch_curve now (Response status body5) = None"
    "v5_fetch_curve now (Response 200 None) = None"
    "v5_fetch_curve now (Response 200 (Some data5)) = Some (v5_transform_response now data5)"
    by (simp_all add: v5_fetch_curve_def)
  show ?thesis using primary degraded flags v5 by blast
qed

theorem fetch_curve_failure_and_degradation_witness:
  "(503::nat) \<noteq> 200 \<and>
   call_failed (Raises TimeoutError :: yesterday_data response) \<and>
   call_failed (Response 404 None :: history_entry list response) \<and>
   fetch_curve ''2025-06-01T14:00:01Z'' (Response 503 None) (Raises TimeoutError)
     (Response 404 None) = None \<and>
   fetch_curve ''2025-06-01T14:00:01Z'' (Response 200 (Some (example_tracking 65170 True)))
     (Raises TimeoutError) (Response 404 None) =
     Some (transform_response ''2025-06-01T14:00:01Z'' (example_tracking 65170 True) None None) \<and>
   fetch_curve ''2025-06-01T14:00:01Z'' (Response 200 (Some (example_tracking 65170 True)))
     (Raises TimeoutError) (Response 200 (Some example_history)) =
     Some (transform_response ''2025-06-01T14:00:01Z'' (example_tracking 65170 True) None
       (Some example_history)) \<and>
   v5_fetch_curve ''2025-06-01T14:00:01Z'' (Response 503 None) = None"
  using fetch_curve_failure_and_degradation[of "''2025-06-01T14:00:01Z''" TimeoutError
      "Raises TimeoutError" "Response 404 None" 503 None "example_tracking 65170 True"
      example_history "\<lparr>yd_forward_curve = []\<rparr>" None None None
      "\<lparr>v5d_forward_curve = [], v5d_fields = []\<rparr>"]
  by (simp add: call_failed_def)

section \<open>The stabilized price\<close>

lemma scan_entry_pending:
  "pending_in h e \<Longrightarrow> scan_entry h e acc = (history_price h e, he_timestamp e)"
  by (simp add: scan_entry_def pending_in_def history_price_def Let_def)

lemma scan_entry_other: "\<not> pending_in h e \<Longrightarrow> scan_entry h e acc = acc"
  by (auto simp: scan_entry_def pending_in_def history_price_def Let_def)

text \<open>The inner loop ends with the price and timestamp of the last pending entry.\<close>

lemma fold_scan_entry:
  "fold (scan_entry h) es acc =
     (case filter (pending_in h) es of
        [] \<Rightarrow> acc
      | p # ps \<Rightarrow> (history_price h (last (p # ps)), he_timestamp (last (p # ps))))"
proof (induction es arbitrary: acc)
  case Nil
  show ?case by simp
next
  case (Cons e es)
  have "fold (scan_entry h) (e # es) acc = fold (scan_entry h) es (scan_entry h e acc)"
    by simp
  also have "\<dots> = (case filter (pending_in h) es of
        [] \<Rightarrow> scan_entry h e acc
      | p # ps \<Rightarrow> (history_price h (last (p # ps)), he_timestamp (last (p # ps))))"
    by (rule Cons.IH)
  finally show ?case
    by (cases "pending_in h e")
       (simp_all add: scan_entry_pending scan_entry_other split: list.splits)
qed

lemma map_of_stabilize_horizon:
  "map_of (stabilize_horizon sh cur k acc) h =
     (if h = k then (case stabilized_value sh cur k of Some v \<Rightarrow> Some v | None \<Rightarrow> map_of acc h)
      else map_of acc h)"
  by (auto simp: stabilize_horizon_def stabilized_value_def Let_def fold_scan_entry update_conv'
      split: list.splits)

lemma map_of_fold_stabilize_horizon:
  "map_of (fold (stabilize_horizon sh cur) hs acc) h =
     (if h \<in> set hs
      then (case stabilized_value sh cur h of Some v \<Rightarrow> Some v | None \<Rightarrow> map_of acc h)
      else map_of acc h)"
  by (induction hs arbitrary: acc) (auto simp: map_of_stabilize_horizon split: option.splits)

lemma stabilized_price_for_history:
  assumes "h \<in> set V4_HORIZONS" and "hist \<noteq> []" and "sorted (map timestamp_key hist)"
  shows "stabilized_price_for (Some hist) cur h =
     (if truthy (dict_get (dict_get cur h []) ''is_actual'' (PBool False))
      then (case filter (pending_in h) hist of
              [] \<Rightarrow> PNone
            | p # ps \<Rightarrow> history_price h (last (p # ps)))
      else dict_get (dict_get cur h []) ''price'' PNone)"
  using assms
  by (auto simp: stabilized_price_for_def extract_stabilized_from_history_def
      sort_key_id_if_sorted dict_get_def map_of_fold_stabilize_horizon stabilized_value_def
      no_stabilized_def Let_def split: list.splits option.splits)

lemma stabilized_price_for_no_history:
  "stabilized_price_for None cur h = PNone" "stabilized_price_for (Some []) cur h = PNone"
  by (simp_all add: stabilized_price_for_def extract_stabilized_from_history_def dict_get_def
      no_stabilized_def)

lemma evolution_of_filter:
  "evolution_of ledger h =
     map (\<lambda>s. (s_timestamp s, s_hours_elapsed s, snapshot_price h s))
       (filter (recorded_in h) ledger)"
  by (induction ledger)
     (auto simp: evolution_of_def map_filter_simps recorded_in_def snapshot_price_def
       dict_get_def split: option.splits)

lemma last_stabilized_price_ledger:
  "ph_last_stabilized_price (add_history_to_point ledger p) =
     (case filter (recorded_in (cp_horizon p)) ledger of
        [] \<Rightarrow> None
      | s # ss \<Rightarrow>
          Some (if truthy (cp_is_actual p) then snapshot_price (cp_horizon p) (last (s # ss))
                else cp_target_price p))"
  by (auto simp: add_history_to_point_def evolution_of_filter Let_def curve_point.extend_def
      last_map split: list.splits)

text \<open>
  Claim C3 fails as stated for a pending horizon when there is no history: the resolver
  returns before its loop, and the pending horizon +1H with the current price 65180 gets
  no stabilized price, from the upstream history (missing or empty) and from an empty
  ledger alike.
\<close>

theorem stabilized_pending_no_history_counterexample:
  "stabilized_price_for None [(''+1H'', example_horizon_data 65180 False)] ''+1H'' = PNone \<and>
   stabilized_price_for (Some []) [(''+1H'', example_horizon_data 65180 False)] ''+1H'' = PNone \<and>
   dict_get (dict_get [(''+1H'', example_horizon_data 65180 False)] ''+1H'' []) ''price'' PNone =
     PNum 65180 \<and>
   \<not> truthy (dict_get (dict_get [(''+1H'', example_horizon_data 65180 False)] ''+1H'' [])
        ''is_actual'' (PBool False)) \<and>
   ph_last_stabilized_price (add_history_to_point [] (example_point 65180 False)) = None \<and>
   \<not> truthy (cp_is_actual (example_point 65180 False)) \<and>
   cp_target_price (example_point 65180 False) = PNum 65180 \<and>
   map (\<lambda>p. (cp_horizon p, cp_target_price p, cp_stabilized_price p))
     (c_curve (transform_response ''2025-06-01T13:10:01Z'' (example_tracking 65180 False)
        None None)) = [(''+1H'', PNum 65180, PNone)]"
proof -
  have "map (\<lambda>p. (cp_horizon p, cp_target_price p, cp_stabilized_price p))
     (c_curve (transform_response ''2025-06-01T13:10:01Z'' (example_tracking 65180 False)
        None None)) = [(''+1H'', PNum 65180, PNone)]"
    by code_simp
  then show ?thesis
    by (simp add: stabilized_price_for_no_history dict_get_def example_horizon_data_def
        last_stabilized_price_ledger example_point_def)
qed

text \<open>
  Claim C3, amended. For every horizon of the catalog, the current curve and a history
  that is not empty and ordered oldest first by timestamp: if the horizon is now
  realized, its stabilized price is the price of the last history entry in which it was
  pending, and is absent when there is no such entry; if the horizon is pending, its
  stabilized price is its current price. With no history (missing or empty) no horizon
  has a stabilized price. The same holds for the price that \<open>_add_history_to_curve\<close>
  attaches from the ledger: it is absent when no snapshot of the ledger records the
  horizon, and else the price of the last snapshot recording it for a realized point and
  the current target price for a pending one. Both are functions of the curve and the
  history alone.
\<close>

theorem stabilized_price_last_pending:
  "(h \<in> set V4_HORIZONS \<and> hist \<noteq> [] \<and> sorted (map timestamp_key hist) \<longrightarrow>
      stabilized_price_for (Some hist) cur h =
        (if truthy (dict_get (dict_get cur h []) ''is_actual'' (PBool False))
         then (case filter (pending_in h) hist of
                 [] \<Rightarrow> PNone
               | p # ps \<Rightarrow> history_price h (last (p # ps)))
         else dict_get (dict_get cur h []) ''price'' PNone)) \<and>
   stabilized_price_for None cur h = PNone \<and>
   stabilized_price_for (Some []) cur h = PNone \<and>
   ph_last_stabilized_price (add_history_to_point ledger p) =
     (case filter (recorded_in (cp_horizon p)) ledger of
        [] \<Rightarrow> None
      | s # ss \<Rightarrow>
          Some (if truthy (cp_is_actual p) then snapshot_price (cp_horizon p) (last (s # ss))
                else cp_target_price p))"
  using stabilized_price_for_history[of h hist cur] stabilized_price_for_no_history[of cur h]
    last_stabilized_price_ledger[of ledger p]
  by blast

theorem stabilized_price_last_pending_witness:
  "''+1H'' \<in> set V4_HORIZONS \<and> example_history \<noteq> [] \<and>
   sorted (map timestamp_key example_history) \<and>
   stabilized_price_for (Some example_history) [(''+1H'', example_horizon_data 65170 True)]
     ''+1H'' = PNum 65180 \<and>
   ph_last_stabilized_price (add_history_to_point example_ledger (example_point 65170 True)) =
     Some (PNum 65180) \<and>
   map (\<lambda>p. (cp_horizon p, cp_target_price p, cp_stabilized_price p))
     (c_curve (transform_response ''2025-06-01T14:00:01Z'' (example_tracking 65170 True)
        None (Some example_history))) = [(''+1H'', PNum 65170, PNum 65180)]"
proof -
  have curve: "map (\<lambda>p. (cp_horizon p, cp_target_price p, cp_stabilized_price p))
     (c_curve (transform_response ''2025-06-01T14:00:01Z'' (example_tracking 65170 True)
        None (Some example_history))) = [(''+1H'', PNum 65170, PNum 65180)]"
    by code_simp
  show ?thesis
    using stabilized_price_last_pending[of "''+1H''" example_history
        "[(''+1H'', example_horizon_data 65170 True)]" example_ledger "example_point 65170 True"]
      curve
    by (simp add: V4_HORIZONS_def example_history_def timestamp_key_def pending_in_def
        history_price_def dict_get_def example_horizon_data_def example_ledger_def
        example_point_def recorded_in_def snapshot_price_def)
qed

section \<open>The accuracy store: one call is one transaction\<close>

text \<open>No statement of the body touches the database file before the commit.\<close>

lemma execute_durable: "execute st ps conn = (res, conn') \<Longrightarrow> durable conn' = durable conn"
  by (auto simp: execute_def split: sum.splits)

lemma now_durable: "now_isoformat clock conn = (v, conn') \<Longrightarrow> durable conn' = durable conn"
  by (auto simp: now_isoformat_def)

lemma store_metric_durable:
  "store_metric clock d h t op sp conn = (res, conn') \<Longrightarrow> durable conn' = durable conn"
  by (auto simp: store_metric_def split: sum.splits prod.splits if_splits dest!: execute_durable now_durable)

lemma store_prediction_durable:
  "store_prediction clock d h tp pc ia op opc sp spc conn = (res, conn') \<Longrightarrow> durable conn' = durable conn"
  by (auto simp: store_prediction_def split: sum.splits prod.splits if_splits option.splits
      dest!: execute_durable now_durable store_metric_durable)

lemma store_point_durable:
  "store_point clock d op pt conn = (res, conn') \<Longrightarrow> durable conn' = durable conn"
  by (auto simp: store_point_def split: sum.splits option.splits if_splits dest: store_prediction_durable)

lemma for_each_invariant:
  assumes "\<And>x s r s'. body x s = (r, s') \<Longrightarrow> P s \<Longrightarrow> P s'"
  shows "for_each body xs s = (r, s') \<Longrightarrow> P s \<Longrightarrow> P s'"
proof (induction xs arbitrary: s)
  case Nil then show ?case by simp
next
  case (Cons x xs)
  obtain r1 s1 where b: "body x s = (r1, s1)" by (cases "body x s")
  have P1: "P s1" using assms[OF b Cons.prems(2)] .
  show ?case
  proof (cases r1)
    case None
    then show ?thesis using Cons.prems(1) b Cons.IH[of s1] P1 by simp
  next
    case (Some e)
    then show ?thesis using Cons.prems(1) b P1 by simp
  qed
qed

lemma for_each_durable:
  "for_each (store_point clock d op) pts conn = (res, conn') \<Longrightarrow> durable conn' = durable conn"
  using for_each_invariant[where P="\<lambda>c. durable c = durable conn" and body="store_point clock d op"]
  by (metis store_point_durable)

lemma store_body_durable:
  "store_body clock cd ts d conn = (res, conn') \<Longrightarrow> durable conn' = durable conn"
  by (auto simp: store_body_def split: sum.splits prod.splits option.splits
      dest!: execute_durable now_durable for_each_durable)

lemma store_v4_data_outcomes:
  assumes "store_v4_data clock cd db = (oc, db')"
  shows "(oc \<noteq> Committed \<longrightarrow> db' = db) \<and>
     (oc = Committed \<longrightarrow> (\<exists>ts d conn. py_get cd ''anchor_timestamp'' PNone = Inr ts \<and> split_T_first ts = Inr d \<and>
        store_body clock cd ts d (sqlite3_connect db) = (None, conn) \<and> db' = pending conn))"
  using assms
  by (auto simp: store_v4_data_def commit_def rollback_def sqlite3_connect_def split: if_splits sum.splits prod.splits option.splits
      dest!: store_body_durable)

text \<open>
  Claim C8. A call of \<open>store_v4_data\<close> is atomic on the database file. If it ends in
  any other way than by its commit (an exception in the body is rolled back, an exception
  before the body and an early return write nothing), the file is exactly as before the
  call. If it commits, the file holds the state the connection had after all statements
  of the body: the anchor row, the prediction rows and the metric rows together.
\<close>

theorem store_v4_data_atomic:
  assumes "store_v4_data clock curve_data db = (oc, db')"
  shows "(oc \<noteq> Committed \<longrightarrow> db' = db) \<and>
     (oc = Committed \<longrightarrow>
        (\<exists>anchor_timestamp anchor_date conn.
           py_get curve_data ''anchor_timestamp'' PNone = Inr anchor_timestamp \<and>
           split_T_first anchor_timestamp = Inr anchor_date \<and>
           store_body clock curve_data anchor_timestamp anchor_date (sqlite3_connect db) =
             (None, conn) \<and>
           db' = pending conn))"
  using store_v4_data_outcomes[OF assms] by blast

theorem store_v4_data_atomic_witness:
  "store_v4_data (example_store_clock 0) example_failing_curve_data empty_database =
     (Rolled_back TypeError, empty_database) \<and>
   length (predictions (pending (snd (store_body (example_store_clock 0)
     example_failing_curve_data (PStr ''2025-06-01T13:00:00Z'') ''2025-06-01''
     (sqlite3_connect empty_database))))) = 2 \<and>
   length (daily_anchors (pending (snd (store_body (example_store_clock 0)
     example_failing_curve_data (PStr ''2025-06-01T13:00:00Z'') ''2025-06-01''
     (sqlite3_connect empty_database))))) = 1 \<and>
   store_v4_data (example_store_clock 0) (example_curve_data 65170 True 65200) empty_database =
     (Committed, pending (snd (store_body (example_store_clock 0)
        (example_curve_data 65170 True 65200) (PStr ''2025-06-01T13:00:00Z'') ''2025-06-01''
        (sqlite3_connect empty_database))))"
proof -
  have committed: "store_v4_data (example_store_clock 0) (example_curve_data 65170 True 65200)
      empty_database =
     (Committed, pending (snd (store_body (example_store_clock 0)
        (example_curve_data 65170 True 65200) (PStr ''2025-06-01T13:00:00Z'') ''2025-06-01''
        (sqlite3_connect empty_database))))"
    by code_simp
  have call: "store_v4_data (example_store_clock 0) example_failing_curve_data empty_database =
     (Rolled_back TypeError, snd (store_v4_data (example_store_clock 0)
        example_failing_curve_data empty_database))"
    by code_simp
  have pending_rows: "length (predictions (pending (snd (store_body (example_store_clock 0)
     example_failing_curve_data (PStr ''2025-06-01T13:00:00Z'') ''2025-06-01''
     (sqlite3_connect empty_database))))) = 2"
    "length (daily_anchors (pending (snd (store_body (example_store_clock 0)
     example_failing_curve_data (PStr ''2025-06-01T13:00:00Z'') ''2025-06-01''
     (sqlite3_connect empty_database))))) = 1"
    by code_simp+
  from store_v4_data_atomic[OF call] call pending_rows committed show ?thesis by simp
qed

section \<open>The accuracy store: what one round of the loop writes\<close>

lemma execute_metric_None:
  assumes "execute insert_or_replace_metric [PStr d, h, PNum e, se, PNum a, sa, PStr c] conn = (None, conn')"
  shows "\<exists>hk bse bsa. bind_param h = Inr hk \<and> bind_param se = Inr bse \<and> bind_param sa = Inr bsa \<and> hk \<noteq> SqlNull \<and>
     conn' = conn\<lparr>pending := (pending conn)\<lparr>accuracy_metrics :=
                 filter (\<lambda>r. \<not> (m_anchor_date r = SqlText d \<and> m_horizon r = hk))
                   (accuracy_metrics (pending conn)) @
                 [\<lparr>m_id = Suc (accuracy_metrics_seq (pending conn)), m_anchor_date = SqlText d,
                   m_horizon = hk, m_original_error_pct = SqlReal e,
                   m_stabilized_error_pct = bse,
                   m_original_accuracy = SqlReal a,
                   m_stabilized_accuracy = bsa,
                   m_calculated_at = SqlText c\<rparr>],
               accuracy_metrics_seq := Suc (accuracy_metrics_seq (pending conn))\<rparr>\<rparr>"
  using assms
  by (auto simp: execute_def and_then_def insert_or_replace_metric_def split: sum.splits if_splits)

lemma execute_prediction_None:
  assumes "execute insert_or_replace_prediction [PStr d, h, op, opc, sp, spc, ap, apc, ba] conn = (None, conn')"
  shows "\<exists>hk bop bopc bsp bspc bap bapc bba. bind_param h = Inr hk \<and> bind_param op = Inr bop \<and>
     bind_param opc = Inr bopc \<and> bind_param sp = Inr bsp \<and> bind_param spc = Inr bspc \<and>
     bind_param ap = Inr bap \<and> bind_param apc = Inr bapc \<and> bind_param ba = Inr bba \<and>
     hk \<noteq> SqlNull \<and> bop \<noteq> SqlNull \<and> bopc \<noteq> SqlNull \<and>
     conn' = conn\<lparr>pending := (pending conn)\<lparr>predictions :=
                 filter (\<lambda>r. \<not> (p_anchor_date r = SqlText d \<and> p_horizon r = hk))
                   (predictions (pending conn)) @
                 [\<lparr>p_id = Suc (predictions_seq (pending conn)), p_anchor_date = SqlText d,
                   p_horizon = hk, p_original_price = bop,
                   p_original_pct = bopc, p_stabilized_price = bsp,
                   p_stabilized_pct = bspc, p_actual_price = bap,
                   p_actual_pct = bapc, p_became_actual_at = bba\<rparr>],
               predictions_seq := Suc (predictions_seq (pending conn))\<rparr>\<rparr>"
  using assms
  by (auto simp: execute_def and_then_def insert_or_replace_prediction_def split: sum.splits if_splits)

lemma error_pct_Inr:
  "error_pct t p = Inr e \<longleftrightarrow> (\<exists>x. py_num p = Inr x \<and> t \<noteq> 0 \<and> e = \<bar>t - x\<bar> / t * 100)"
  by (auto simp: error_pct_def and_then_def py_truediv_def split: sum.splits)

lemma store_metric_None:
  assumes "store_metric clock d h t op sp conn = (None, conn')"
  shows "\<exists>hk x mrow. bind_param h = Inr hk \<and> py_num op = Inr x \<and> t \<noteq> 0 \<and>
     accuracy_metrics (pending conn') =
       filter (\<lambda>r. \<not> (m_anchor_date r = SqlText d \<and> m_horizon r = hk))
         (accuracy_metrics (pending conn)) @ [mrow] \<and>
     m_anchor_date mrow = SqlText d \<and> m_horizon mrow = hk \<and>
     m_original_error_pct mrow = SqlReal (\<bar>t - x\<bar> / t * 100) \<and>
     m_original_accuracy mrow = SqlReal (100 - \<bar>t - x\<bar> / t * 100) \<and>
     (if truthy sp
      then \<exists>s. py_num sp = Inr s \<and>
             m_stabilized_error_pct mrow = SqlReal (\<bar>t - s\<bar> / t * 100) \<and>
             m_stabilized_accuracy mrow = SqlReal (100 - \<bar>t - s\<bar> / t * 100)
      else m_stabilized_error_pct mrow = SqlNull \<and> m_stabilized_accuracy mrow = SqlNull) \<and>
     m_calculated_at mrow = SqlText (clock (ticks conn)) \<and>
     predictions (pending conn') = predictions (pending conn) \<and>
     daily_anchors (pending conn') = daily_anchors (pending conn) \<and>
     predictions_seq (pending conn') = predictions_seq (pending conn) \<and>
     durable conn' = durable conn"
proof -
  obtain e where e: "error_pct t op = Inr e"
    using assms by (cases "error_pct t op") (auto simp: store_metric_def)
  then obtain x where x: "py_num op = Inr x" "t \<noteq> 0" "e = \<bar>t - x\<bar> / t * 100"
    by (auto simp: error_pct_Inr)
  show ?thesis
  proof (cases "truthy sp")
    case True
    then obtain se where se: "error_pct t sp = Inr se"
      using assms e by (cases "error_pct t sp") (auto simp: store_metric_def and_then_def)
    then obtain s where s: "py_num sp = Inr s" "se = \<bar>t - s\<bar> / t * 100"
      by (auto simp: error_pct_Inr)
    have "execute insert_or_replace_metric
            [PStr d, h, PNum e, PNum se, PNum (100 - e), PNum (100 - se), PStr (clock (ticks conn))]
            (conn\<lparr>ticks := Suc (ticks conn)\<rparr>) = (None, conn')"
      using assms e se True by (simp add: store_metric_def and_then_def now_isoformat_def)
    from execute_metric_None[OF this] show ?thesis
      using x s True by auto
  next
    case False
    have "execute insert_or_replace_metric
            [PStr d, h, PNum e, PNone, PNum (100 - e), PNone, PStr (clock (ticks conn))]
            (conn\<lparr>ticks := Suc (ticks conn)\<rparr>) = (None, conn')"
      using assms e False by (simp add: store_metric_def and_then_def now_isoformat_def)
    from execute_metric_None[OF this] show ?thesis
      using x False by auto
  qed
qed

lemma store_prediction_steps:
  assumes "store_prediction clock d h tp pc ia op opc sp spc conn = (None, conn')"
  shows "\<exists>conn2.
     execute insert_or_replace_prediction
       [PStr d, h, op, opc, sp, spc, if truthy ia then tp else PNone,
        if truthy ia then pc else PNone,
        if truthy ia then PStr (clock (ticks conn)) else PNone]
       (if truthy ia then conn\<lparr>ticks := Suc (ticks conn)\<rparr> else conn) = (None, conn2) \<and>
     (if truthy ia \<and> (\<exists>t. py_num tp = Inr t \<and> t > 0)
      then \<exists>t. py_num tp = Inr t \<and> t > 0 \<and> store_metric clock d h t op sp conn2 = (None, conn')
      else conn' = conn2)"
proof -
  define ba conn1 where "ba = (if truthy ia then PStr (clock (ticks conn)) else PNone)"
    and "conn1 = (if truthy ia then conn\<lparr>ticks := Suc (ticks conn)\<rparr> else conn)"
  have now: "(if truthy ia then now_isoformat clock conn else (PNone, conn)) = (ba, conn1)"
    by (simp add: ba_def conn1_def now_isoformat_def)
  obtain r2 conn2 where ex: "execute insert_or_replace_prediction
      [PStr d, h, op, opc, sp, spc, if truthy ia then tp else PNone,
       if truthy ia then pc else PNone, ba] conn1 = (r2, conn2)"
    by (cases "execute insert_or_replace_prediction
      [PStr d, h, op, opc, sp, spc, if truthy ia then tp else PNone,
       if truthy ia then pc else PNone, ba] conn1")
  have r2: "r2 = None"
    using assms now ex by (cases r2) (simp_all add: store_prediction_def)
  have rest: "(if truthy ia
               then (case py_num tp of
                       Inl e \<Rightarrow> (Some e, conn2)
                     | Inr t \<Rightarrow>
                         if t > 0
                         then store_metric clock d h t op sp conn2
                         else (None, conn2))
               else (None, conn2)) = (None, conn')"
    using assms now ex r2 by (simp add: store_prediction_def)
  have "if truthy ia \<and> (\<exists>t. py_num tp = Inr t \<and> t > 0)
      then \<exists>t. py_num tp = Inr t \<and> t > 0 \<and> store_metric clock d h t op sp conn2 = (None, conn')
      else conn' = conn2"
    using rest by (auto split: sum.splits if_splits)
  then show ?thesis using ex r2 unfolding ba_def conn1_def by blast
qed

lemma store_prediction_predictions:
  assumes "store_prediction clock d h tp pc ia op opc sp spc conn = (None, conn')"
  shows "\<exists>hk prow. bind_param h = Inr hk \<and> hk \<noteq> SqlNull \<and>
     predictions (pending conn') =
       filter (\<lambda>r. \<not> (p_anchor_date r = SqlText d \<and> p_horizon r = hk))
         (predictions (pending conn)) @ [prow] \<and>
     p_anchor_date prow = SqlText d \<and> p_horizon prow = hk \<and>
     p_id prow = Suc (predictions_seq (pending conn)) \<and>
     Inr (p_original_price prow) = bind_param op \<and>
     Inr (p_original_pct prow) = bind_param opc \<and>
     Inr (p_stabilized_price prow) = bind_param sp \<and>
     Inr (p_stabilized_pct prow) = bind_param spc \<and>
     Inr (p_actual_price prow) = bind_param (if truthy ia then tp else PNone) \<and>
     Inr (p_actual_pct prow) = bind_param (if truthy ia then pc else PNone) \<and>
     p_became_actual_at prow = (if truthy ia then SqlText (clock (ticks conn)) else SqlNull) \<and>
     p_original_price prow \<noteq> SqlNull \<and> p_original_pct prow \<noteq> SqlNull \<and>
     daily_anchors (pending conn') = daily_anchors (pending conn) \<and>
     durable conn' = durable conn"
proof -
  from store_prediction_steps[OF assms] obtain conn2 where
    ex: "execute insert_or_replace_prediction
       [PStr d, h, op, opc, sp, spc, if truthy ia then tp else PNone,
        if truthy ia then pc else PNone,
        if truthy ia then PStr (clock (ticks conn)) else PNone]
       (if truthy ia then conn\<lparr>ticks := Suc (ticks conn)\<rparr> else conn) = (None, conn2)"
    and rest: "if truthy ia \<and> (\<exists>t. py_num tp = Inr t \<and> t > 0)
      then \<exists>t. py_num tp = Inr t \<and> t > 0 \<and> store_metric clock d h t op sp conn2 = (None, conn')
      else conn' = conn2"
    by blast
  have keep: "predictions (pending conn') = predictions (pending conn2) \<and>
      daily_anchors (pending conn') = daily_anchors (pending conn2) \<and>
      durable conn' = durable conn2"
    using rest store_metric_None[of clock d h _ op sp conn2 conn']
    by (cases "truthy ia \<and> (\<exists>t. py_num tp = Inr t \<and> t > 0)") auto
  from execute_prediction_None[OF ex] keep show ?thesis
    by (cases "truthy ia") auto
qed

lemma store_prediction_metrics:
  assumes "store_prediction clock d h tp pc ia op opc sp spc conn = (None, conn')"
  shows "if truthy ia \<and> (\<exists>t. py_num tp = Inr t \<and> t > 0)
      then \<exists>hk t x mrow. bind_param h = Inr hk \<and> py_num tp = Inr t \<and> py_num op = Inr x \<and>
        accuracy_metrics (pending conn') =
          filter (\<lambda>r. \<not> (m_anchor_date r = SqlText d \<and> m_horizon r = hk))
            (accuracy_metrics (pending conn)) @ [mrow] \<and>
        m_anchor_date mrow = SqlText d \<and> m_horizon mrow = hk \<and>
        m_original_error_pct mrow = SqlReal (\<bar>t - x\<bar> / t * 100) \<and>
        m_original_accuracy mrow = SqlReal (100 - \<bar>t - x\<bar> / t * 100) \<and>
        (if truthy sp
         then \<exists>s. py_num sp = Inr s \<and>
                m_stabilized_error_pct mrow = SqlReal (\<bar>t - s\<bar> / t * 100) \<and>
                m_stabilized_accuracy mrow = SqlReal (100 - \<bar>t - s\<bar> / t * 100)
         else m_stabilized_error_pct mrow = SqlNull \<and> m_stabilized_accuracy mrow = SqlNull)
      else accuracy_metrics (pending conn') = accuracy_metrics (pending conn)"
proof -
  from store_prediction_steps[OF assms] obtain conn2 where
    ex: "execute insert_or_replace_prediction
       [PStr d, h, op, opc, sp, spc, if truthy ia then tp else PNone,
        if truthy ia then pc else PNone,
        if truthy ia then PStr (clock (ticks conn)) else PNone]
       (if truthy ia then conn\<lparr>ticks := Suc (ticks conn)\<rparr> else conn) = (None, conn2)"
    and rest: "if truthy ia \<and> (\<exists>t. py_num tp = Inr t \<and> t > 0)
      then \<exists>t. py_num tp = Inr t \<and> t > 0 \<and> store_metric clock d h t op sp conn2 = (None, conn')
      else conn' = conn2"
    by blast
  have m2: "accuracy_metrics (pending conn2) = accuracy_metrics (pending conn)"
    using execute_prediction_None[OF ex] by (cases "truthy ia") auto
  show ?thesis
  proof (cases "truthy ia \<and> (\<exists>t. py_num tp = Inr t \<and> t > 0)")
    case True
    then obtain t where t: "py_num tp = Inr t" "t > 0"
      and sm: "store_metric clock d h t op sp conn2 = (None, conn')"
      using rest by auto
    from store_metric_None[OF sm] obtain hk x mrow where
      "bind_param h = Inr hk \<and> py_num op = Inr x \<and> t \<noteq> 0 \<and>
     accuracy_metrics (pending conn') =
       filter (\<lambda>r. \<not> (m_anchor_date r = SqlText d \<and> m_horizon r = hk))
         (accuracy_metrics (pending conn2)) @ [mrow] \<and>
     m_anchor_date mrow = SqlText d \<and> m_horizon mrow = hk \<and>
     m_original_error_pct mrow = SqlReal (\<bar>t - x\<bar> / t * 100) \<and>
     m_original_accuracy mrow = SqlReal (100 - \<bar>t - x\<bar> / t * 100) \<and>
     (if truthy sp
      then \<exists>s. py_num sp = Inr s \<and>
             m_stabilized_error_pct mrow = SqlReal (\<bar>t - s\<bar> / t * 100) \<and>
             m_stabilized_accuracy mrow = SqlReal (100 - \<bar>t - s\<bar> / t * 100)
      else m_stabilized_error_pct mrow = SqlNull \<and> m_stabilized_accuracy mrow = SqlNull)"
      by blast
    then have "\<exists>hk t x mrow. bind_param h = Inr hk \<and> py_num tp = Inr t \<and> py_num op = Inr x \<and>
        accuracy_metrics (pending conn') =
          filter (\<lambda>r. \<not> (m_anchor_date r = SqlText d \<and> m_horizon r = hk))
            (accuracy_metrics (pending conn)) @ [mrow] \<and>
        m_anchor_date mrow = SqlText d \<and> m_horizon mrow = hk \<and>
        m_original_error_pct mrow = SqlReal (\<bar>t - x\<bar> / t * 100) \<and>
        m_original_accuracy mrow = SqlReal (100 - \<bar>t - x\<bar> / t * 100) \<and>
        (if truthy sp
         then \<exists>s. py_num sp = Inr s \<and>
                m_stabilized_error_pct mrow = SqlReal (\<bar>t - s\<bar> / t * 100) \<and>
                m_stabilized_accuracy mrow = SqlReal (100 - \<bar>t - s\<bar> / t * 100)
         else m_stabilized_error_pct mrow = SqlNull \<and> m_stabilized_accuracy mrow = SqlNull)"
      unfolding m2 using t(1) by blast
    then show ?thesis using True by simp
  next
    case False
    have c: "conn' = conn2" using rest unfolding if_not_P[OF False] .
    show ?thesis unfolding if_not_P[OF False] using c m2 by simp
  qed
qed

lemma py_get_Inr: "py_get obj k dflt = Inr v \<longleftrightarrow> (\<exists>d. obj = PDict d \<and> v = dict_get d k dflt)"
  by (cases obj) auto

lemma read_point_Some:
  assumes "read_point op pt = Inr (Some r)" and "truthy (r_original_price r)"
  shows "\<exists>h. point_for h pt \<and> r_horizon r = PStr h \<and>
     r_target_price r = field_of pt ''target_price'' (PNum 0) \<and>
     r_pct_change r = field_of pt ''pct_change'' (PNum 0) \<and>
     r_is_actual r = field_of pt ''is_actual'' (PBool False) \<and>
     r_original_price r = original_of op h ''original_price'' \<and>
     r_original_pct r = original_of op h ''original_pct'' \<and>
     r_stabilized_price r = original_of op h ''stabilized_price'' \<and>
     r_stabilized_pct r = original_of op h ''stabilized_pct''"
proof -
  obtain pd where pt: "pt = PDict pd"
    using assms(1) by (cases pt) (auto simp: read_point_def and_then_def)
  define hz where "hz = dict_get pd ''horizon'' PNone"
  have th: "truthy hz"
    using assms(1) by (auto simp: read_point_def and_then_def pt hz_def split: if_splits)
  obtain orig where orig: "py_get_key op hz (PDict []) = Inr orig"
    using assms(1) th by (cases "py_get_key op hz (PDict [])")
      (auto simp: read_point_def and_then_def pt hz_def)
  obtain od where od: "orig = PDict od"
    using assms(1) th orig by (cases orig) (auto simp: read_point_def and_then_def pt hz_def)
  have r: "r = \<lparr>r_horizon = hz, r_target_price = dict_get pd ''target_price'' (PNum 0),
                  r_pct_change = dict_get pd ''pct_change'' (PNum 0),
                  r_is_actual = dict_get pd ''is_actual'' (PBool False),
                  r_original_price = dict_get od ''original_price'' PNone,
                  r_original_pct = dict_get od ''original_pct'' PNone,
                  r_stabilized_price = dict_get od ''stabilized_price'' PNone,
                  r_stabilized_pct = dict_get od ''stabilized_pct'' PNone\<rparr>"
    using assms(1) th orig od by (auto simp: read_point_def and_then_def pt hz_def)
  have nonempty: "od \<noteq> []"
    using assms(2) r by (auto simp: dict_get_def)
  obtain h where h: "hz = PStr h"
    using orig od nonempty by (cases op; cases hz) auto
  show ?thesis
    using r h orig od pt hz_def th
    by (auto simp: point_for_def field_of_def original_of_def)
qed

lemma read_point_for:
  assumes "point_for h pt" and "read_point op pt = Inr ro"
  shows "\<exists>r. ro = Some r \<and> r_horizon r = PStr h \<and>
     r_target_price r = field_of pt ''target_price'' (PNum 0) \<and>
     r_pct_change r = field_of pt ''pct_change'' (PNum 0) \<and>
     r_is_actual r = field_of pt ''is_actual'' (PBool False) \<and>
     r_original_price r = original_of op h ''original_price'' \<and>
     r_original_pct r = original_of op h ''original_pct'' \<and>
     r_stabilized_price r = original_of op h ''stabilized_price'' \<and>
     r_stabilized_pct r = original_of op h ''stabilized_pct''"
proof -
  obtain pd where pt: "pt = PDict pd" and hz: "dict_get pd ''horizon'' PNone = PStr h"
    using assms(1) by (auto simp: point_for_def py_get_Inr)
  have th: "h \<noteq> []"
    using assms(1) by (simp add: point_for_def)
  obtain orig where orig: "py_get_key op (PStr h) (PDict []) = Inr orig"
    using assms(2) th hz by (cases "py_get_key op (PStr h) (PDict [])")
      (auto simp: read_point_def and_then_def pt)
  obtain od where od: "orig = PDict od"
    using assms(2) th orig hz by (cases orig) (auto simp: read_point_def and_then_def pt)
  show ?thesis
    using assms(2) th orig od pt hz
    by (auto simp: read_point_def and_then_def field_of_def original_of_def)
qed

lemma store_point_cases:
  assumes "store_point clock d op pt conn = (None, conn')"
  shows "(conn' = conn \<and> \<not> (\<exists>h. point_for h pt \<and> truthy (original_of op h ''original_price''))) \<or>
     (\<exists>h. point_for h pt \<and> truthy (original_of op h ''original_price'') \<and>
        store_prediction clock d (PStr h) (field_of pt ''target_price'' (PNum 0))
          (field_of pt ''pct_change'' (PNum 0)) (field_of pt ''is_actual'' (PBool False))
          (original_of op h ''original_price'') (original_of op h ''original_pct'')
          (original_of op h ''stabilized_price'') (original_of op h ''stabilized_pct'') conn =
        (None, conn'))"
proof (cases "read_point op pt")
  case (Inl e)
  then show ?thesis using assms by (simp add: store_point_def)
next
  case (Inr ro)
  show ?thesis
  proof (cases "\<exists>h. point_for h pt")
    case True
    then obtain h where h: "point_for h pt" by blast
    from read_point_for[OF h Inr] obtain r where r: "ro = Some r" "r_horizon r = PStr h"
     "r_target_price r = field_of pt ''target_price'' (PNum 0)"
     "r_pct_change r = field_of pt ''pct_change'' (PNum 0)"
     "r_is_actual r = field_of pt ''is_actual'' (PBool False)"
     "r_original_price r = original_of op h ''original_price''"
     "r_original_pct r = original_of op h ''original_pct''"
     "r_stabilized_price r = original_of op h ''stabilized_price''"
     "r_stabilized_pct r = original_of op h ''stabilized_pct''"
      by blast
    have uniq: "\<And>h'. point_for h' pt \<Longrightarrow> h' = h"
      using h by (auto simp: point_for_def)
    show ?thesis
    proof (cases "truthy (original_of op h ''original_price'')")
      case True
      then show ?thesis using assms Inr r h by (auto simp: store_point_def)
    next
      case False
      then have "conn' = conn" using assms Inr r by (simp add: store_point_def)
      then show ?thesis using False uniq by blast
    qed
  next
    case False
    have "conn' = conn"
    proof (cases ro)
      case None
      then show ?thesis using assms Inr by (simp add: store_point_def)
    next
      case (Some r)
      have "\<not> truthy (r_original_price r)"
        using read_point_Some[of op pt r] Inr Some False by blast
      then show ?thesis using assms Inr Some by (simp add: store_point_def)
    qed
    then show ?thesis using False by blast
  qed
qed

lemma for_each_None_invariant:
  assumes "\<And>x s s'. x \<in> set xs \<Longrightarrow> body x s = (None, s') \<Longrightarrow> P s \<Longrightarrow> P s'"
  shows "for_each body xs s = (None, s') \<Longrightarrow> P s \<Longrightarrow> P s'"
  using assms
proof (induction xs arbitrary: s)
  case Nil then show ?case by simp
next
  case (Cons x xs)
  obtain r1 s1 where b: "body x s = (r1, s1)" by (cases "body x s")
  have r1: "r1 = None" using Cons.prems(1) b by (cases r1) simp_all
  have P1: "P s1" using Cons.prems(3)[of x s s1] b r1 Cons.prems(2) by simp
  have "for_each body xs s1 = (None, s')" using Cons.prems(1) b r1 by simp
  from Cons.IH[OF this P1] Cons.prems(3) show ?case by (meson list.set_intros(2))
qed

lemma store_point_writes:
  assumes "store_point clock d op pt conn = (None, conn')"
    and "point_for h pt" and "truthy (original_of op h ''original_price'')"
  shows "store_prediction clock d (PStr h) (field_of pt ''target_price'' (PNum 0))
          (field_of pt ''pct_change'' (PNum 0)) (field_of pt ''is_actual'' (PBool False))
          (original_of op h ''original_price'') (original_of op h ''original_pct'')
          (original_of op h ''stabilized_price'') (original_of op h ''stabilized_pct'') conn =
        (None, conn')"
proof -
  have uniq: "\<And>h'. point_for h' pt \<Longrightarrow> h' = h"
    using assms(2) by (auto simp: point_for_def)
  from store_point_cases[OF assms(1)] assms(2,3) uniq show ?thesis by blast
qed

lemma store_point_prediction_rows_frame:
  assumes "store_point clock d op pt conn = (None, conn')"
    and "\<not> (d' = d \<and> point_for h pt \<and> truthy (original_of op h ''original_price''))"
  shows "prediction_rows d' h (pending conn') = prediction_rows d' h (pending conn)"
proof -
  from store_point_cases[OF assms(1)] show ?thesis
  proof
    assume "conn' = conn \<and> \<not> (\<exists>h. point_for h pt \<and> truthy (original_of op h ''original_price''))"
    then show ?thesis by simp
  next
    assume "\<exists>h. point_for h pt \<and> truthy (original_of op h ''original_price'') \<and>
        store_prediction clock d (PStr h) (field_of pt ''target_price'' (PNum 0))
          (field_of pt ''pct_change'' (PNum 0)) (field_of pt ''is_actual'' (PBool False))
          (original_of op h ''original_price'') (original_of op h ''original_pct'')
          (original_of op h ''stabilized_price'') (original_of op h ''stabilized_pct'') conn =
        (None, conn')"
    then obtain h' where h': "point_for h' pt" "truthy (original_of op h' ''original_price'')"
      and sp: "store_prediction clock d (PStr h') (field_of pt ''target_price'' (PNum 0))
          (field_of pt ''pct_change'' (PNum 0)) (field_of pt ''is_actual'' (PBool False))
          (original_of op h' ''original_price'') (original_of op h' ''original_pct'')
          (original_of op h' ''stabilized_price'') (original_of op h' ''stabilized_pct'') conn =
        (None, conn')" by blast
    have ne: "\<not> (d' = d \<and> h' = h)" using assms(2) h' by auto
    from store_prediction_predictions[OF sp] obtain prow where
      "predictions (pending conn') =
       filter (\<lambda>r. \<not> (p_anchor_date r = SqlText d \<and> p_horizon r = SqlText h'))
         (predictions (pending conn)) @ [prow]"
      "p_anchor_date prow = SqlText d" "p_horizon prow = SqlText h'"
      by auto
    then show ?thesis using ne
      by (auto simp: prediction_rows_def intro: filter_cong)
  qed
qed

lemma store_point_prediction_rows_write:
  assumes "store_point clock d op pt conn = (None, conn')"
    and "point_for h pt" and "truthy (original_of op h ''original_price'')"
  shows "\<exists>prow. prediction_rows d h (pending conn') = [prow] \<and>
     p_id prow = Suc (predictions_seq (pending conn)) \<and>
     Inr (p_original_price prow) = bind_param (original_of op h ''original_price'') \<and>
     Inr (p_original_pct prow) = bind_param (original_of op h ''original_pct'') \<and>
     Inr (p_stabilized_price prow) = bind_param (original_of op h ''stabilized_price'') \<and>
     Inr (p_stabilized_pct prow) = bind_param (original_of op h ''stabilized_pct'') \<and>
     Inr (p_actual_price prow) =
       bind_param (if truthy (field_of pt ''is_actual'' (PBool False))
                   then field_of pt ''target_price'' (PNum 0) else PNone) \<and>
     Inr (p_actual_pct prow) =
       bind_param (if truthy (field_of pt ''is_actual'' (PBool False))
                   then field_of pt ''pct_change'' (PNum 0) else PNone) \<and>
     p_became_actual_at prow =
       (if truthy (field_of pt ''is_actual'' (PBool False))
        then SqlText (clock (ticks conn)) else SqlNull)"
proof -
  from store_prediction_predictions[OF store_point_writes[OF assms]]
  show ?thesis
    by (auto simp: prediction_rows_def)
qed

lemma store_point_metric_rows_frame:
  assumes "store_point clock d op pt conn = (None, conn')"
    and "\<not> (d' = d \<and> point_for h pt \<and> truthy (original_of op h ''original_price'') \<and>
             truthy (field_of pt ''is_actual'' (PBool False)) \<and>
             (\<exists>t. py_num (field_of pt ''target_price'' (PNum 0)) = Inr t \<and> t > 0))"
  shows "metric_rows d' h (pending conn') = metric_rows d' h (pending conn)"
proof -
  from store_point_cases[OF assms(1)] show ?thesis
  proof
    assume "conn' = conn \<and> \<not> (\<exists>h. point_for h pt \<and> truthy (original_of op h ''original_price''))"
    then show ?thesis by simp
  next
    assume "\<exists>h. point_for h pt \<and> truthy (original_of op h ''original_price'') \<and>
        store_prediction clock d (PStr h) (field_of pt ''target_price'' (PNum 0))
          (field_of pt ''pct_change'' (PNum 0)) (field_of pt ''is_actual'' (PBool False))
          (original_of op h ''original_price'') (original_of op h ''original_pct'')
          (original_of op h ''stabilized_price'') (original_of op h ''stabilized_pct'') conn =
        (None, conn')"
    then obtain h' where h': "point_for h' pt" "truthy (original_of op h' ''original_price'')"
      and sp: "store_prediction clock d (PStr h') (field_of pt ''target_price'' (PNum 0))
          (field_of pt ''pct_change'' (PNum 0)) (field_of pt ''is_actual'' (PBool False))
          (original_of op h' ''original_price'') (original_of op h' ''original_pct'')
          (original_of op h' ''stabilized_price'') (original_of op h' ''stabilized_pct'') conn =
        (None, conn')" by blast
    let ?real = "truthy (field_of pt ''is_actual'' (PBool False)) \<and>
             (\<exists>t. py_num (field_of pt ''target_price'' (PNum 0)) = Inr t \<and> t > 0)"
    show ?thesis
    proof (cases ?real)
      case False
      from store_prediction_metrics[OF sp]
      have "accuracy_metrics (pending conn') = accuracy_metrics (pending conn)"
        unfolding if_not_P[OF False] .
      then show ?thesis by (simp add: metric_rows_def)
    next
      case True
      then have ne: "\<not> (d' = d \<and> h' = h)" using assms(2) h' by auto
      from store_prediction_metrics[OF sp] True obtain mrow where
        "accuracy_metrics (pending conn') =
          filter (\<lambda>r. \<not> (m_anchor_date r = SqlText d \<and> m_horizon r = SqlText h'))
            (accuracy_metrics (pending conn)) @ [mrow]"
        "m_anchor_date mrow = SqlText d" "m_horizon mrow = SqlText h'"
        unfolding if_P[OF True] by auto
      then show ?thesis using ne
        by (auto simp: metric_rows_def intro: filter_cong)
    qed
  qed
qed

lemma store_point_metric_rows_write:
  assumes "store_point clock d op pt conn = (None, conn')"
    and "point_for h pt" and "truthy (original_of op h ''original_price'')"
    and "truthy (field_of pt ''is_actual'' (PBool False))"
    and "py_num (field_of pt ''target_price'' (PNum 0)) = Inr t" and "t > 0"
  shows "\<exists>x mrow. py_num (original_of op h ''original_price'') = Inr x \<and>
     metric_rows d h (pending conn') = [mrow] \<and>
     m_original_error_pct mrow = SqlReal (\<bar>t - x\<bar> / t * 100) \<and>
     m_original_accuracy mrow = SqlReal (100 - \<bar>t - x\<bar> / t * 100) \<and>
     (if truthy (original_of op h ''stabilized_price'')
      then \<exists>s. py_num (original_of op h ''stabilized_price'') = Inr s \<and>
             m_stabilized_error_pct mrow = SqlReal (\<bar>t - s\<bar> / t * 100) \<and>
             m_stabilized_accuracy mrow = SqlReal (100 - \<bar>t - s\<bar> / t * 100)
      else m_stabilized_error_pct mrow = SqlNull \<and> m_stabilized_accuracy mrow = SqlNull)"
proof -
  have c: "truthy (field_of pt ''is_actual'' (PBool False)) \<and>
             (\<exists>t. py_num (field_of pt ''target_price'' (PNum 0)) = Inr t \<and> t > 0)"
    using assms(4-6) by blast
  from store_prediction_metrics[OF store_point_writes[OF assms(1-3)]]
  show ?thesis unfolding if_P[OF c] using assms(5)
    by (auto simp: metric_rows_def split: if_splits)
qed

lemma for_each_last:
  assumes frame: "\<And>x s s'. body x s = (None, s') \<Longrightarrow> \<not> W x \<Longrightarrow> R s' = R s"
    and wr: "\<And>x s s'. body x s = (None, s') \<Longrightarrow> W x \<Longrightarrow> Q x (R s')"
  shows "for_each body xs s = (None, s') \<Longrightarrow> filter W xs \<noteq> [] \<Longrightarrow> Q (last (filter W xs)) (R s')"
proof (induction xs arbitrary: s)
  case Nil then show ?case by simp
next
  case (Cons x xs)
  obtain r1 s1 where b: "body x s = (r1, s1)" by (cases "body x s")
  have r1: "r1 = None" using Cons.prems(1) b by (cases r1) simp_all
  have rest: "for_each body xs s1 = (None, s')" using Cons.prems(1) b r1 by simp
  show ?case
  proof (cases "filter W xs = []")
    case True
    then have Wx: "W x" using Cons.prems(2) by (auto split: if_splits)
    have nW: "\<And>y. y \<in> set xs \<Longrightarrow> \<not> W y" using True by (auto simp: filter_empty_conv)
    have "R s' = R s1"
      using for_each_None_invariant[where P="\<lambda>t. R t = R s1" and body=body and xs=xs, OF _ rest]
        frame nW by simp
    moreover have "Q x (R s1)" using wr[of x s s1] b r1 Wx by simp
    ultimately show ?thesis using True Wx by simp
  next
    case False
    from Cons.IH[OF rest False] False show ?thesis by simp
  qed
qed

lemma for_each_frame:
  assumes frame: "\<And>x s s'. x \<in> set xs \<Longrightarrow> body x s = (None, s') \<Longrightarrow> R s' = R s"
  shows "for_each body xs s = (None, s') \<Longrightarrow> R s' = R s"
  using for_each_None_invariant[where P="\<lambda>t. R t = R s" and body=body and xs=xs and s=s and s'=s']
    frame by simp

lemma execute_anchor_None:
  assumes "execute insert_or_replace_anchor params conn = (None, conn')"
  shows "predictions (pending conn') = predictions (pending conn) \<and>
         accuracy_metrics (pending conn') = accuracy_metrics (pending conn) \<and>
         predictions_seq (pending conn') = predictions_seq (pending conn) \<and>
         accuracy_metrics_seq (pending conn') = accuracy_metrics_seq (pending conn) \<and>
         durable conn' = durable conn"
  using assms
  by (auto simp: execute_def and_then_def insert_or_replace_anchor_def
      split: sum.splits if_splits list.splits)

lemma store_body_None:
  assumes "store_body clock cd ts d conn = (None, conn')"
  shows "\<exists>points conn2. curve_points cd = Inr points \<and>
     for_each (store_point clock d (field_of cd ''original_predictions'' (PDict []))) points conn2 =
       (None, conn') \<and>
     predictions (pending conn2) = predictions (pending conn) \<and>
     accuracy_metrics (pending conn2) = accuracy_metrics (pending conn) \<and>
     durable conn2 = durable conn"
  using assms
  by (auto simp: store_body_def and_then_def now_isoformat_def field_of_def
      split: sum.splits prod.splits option.splits dest!: execute_anchor_None)

lemma store_v4_data_Committed:
  assumes "store_v4_data clock cd db = (Committed, db')"
  shows "\<exists>d points conn2 conn'. anchor_date_of cd = Some d \<and> curve_points cd = Inr points \<and>
     for_each (store_point clock d (original_predictions_of cd)) points conn2 = (None, conn') \<and>
     db' = pending conn' \<and>
     predictions (pending conn2) = predictions db \<and>
     accuracy_metrics (pending conn2) = accuracy_metrics db"
proof -
  from assms obtain ts d conn' where ts: "py_get cd ''anchor_timestamp'' PNone = Inr ts"
    and d: "split_T_first ts = Inr d"
    and body: "store_body clock cd ts d (sqlite3_connect db) = (None, conn')"
    and db': "db' = pending conn'"
    by (auto simp: store_v4_data_def commit_def split: if_splits sum.splits prod.splits option.splits)
  from store_body_None[OF body] show ?thesis
    using ts d db' by (auto simp: anchor_date_of_def original_predictions_of_def sqlite3_connect_def)
qed

lemma store_v4_data_not_Committed:
  assumes "store_v4_data clock cd db = (oc, db')" and "oc \<noteq> Committed"
  shows "db' = db"
  using store_v4_data_outcomes[OF assms(1)] assms(2) by simp

lemma for_each_prediction_rows_last:
  assumes "for_each (store_point clock d op) points conn = (None, conn')"
    and "filter (point_for h) points \<noteq> []"
    and "truthy (original_of op h ''original_price'')"
  shows "\<exists>prow. prediction_rows d h (pending conn') = [prow] \<and>
     Inr (p_original_price prow) = bind_param (original_of op h ''original_price'') \<and>
     Inr (p_original_pct prow) = bind_param (original_of op h ''original_pct'') \<and>
     Inr (p_stabilized_price prow) = bind_param (original_of op h ''stabilized_price'') \<and>
     Inr (p_stabilized_pct prow) = bind_param (original_of op h ''stabilized_pct'') \<and>
     (if truthy (field_of (last (filter (point_for h) points)) ''is_actual'' (PBool False))
      then Inr (p_actual_price prow) =
             bind_param (field_of (last (filter (point_for h) points)) ''target_price'' (PNum 0)) \<and>
           Inr (p_actual_pct prow) =
             bind_param (field_of (last (filter (point_for h) points)) ''pct_change'' (PNum 0)) \<and>
           (\<exists>k. p_became_actual_at prow = SqlText (clock k))
      else p_actual_price prow = SqlNull \<and> p_actual_pct prow = SqlNull \<and>
           p_became_actual_at prow = SqlNull)"
proof -
  let ?Q = "\<lambda>pt rows. \<exists>prow. rows = [prow] \<and>
     Inr (p_original_price prow) = bind_param (original_of op h ''original_price'') \<and>
     Inr (p_original_pct prow) = bind_param (original_of op h ''original_pct'') \<and>
     Inr (p_stabilized_price prow) = bind_param (original_of op h ''stabilized_price'') \<and>
     Inr (p_stabilized_pct prow) = bind_param (original_of op h ''stabilized_pct'') \<and>
     (if truthy (field_of pt ''is_actual'' (PBool False))
      then Inr (p_actual_price prow) = bind_param (field_of pt ''target_price'' (PNum 0)) \<and>
           Inr (p_actual_pct prow) = bind_param (field_of pt ''pct_change'' (PNum 0)) \<and>
           (\<exists>k. p_became_actual_at prow = SqlText (clock k))
      else p_actual_price prow = SqlNull \<and> p_actual_pct prow = SqlNull \<and>
           p_became_actual_at prow = SqlNull)"
  have frame: "\<And>x s s'. store_point clock d op x s = (None, s') \<Longrightarrow> \<not> point_for h x \<Longrightarrow>
      prediction_rows d h (pending s') = prediction_rows d h (pending s)"
    using store_point_prediction_rows_frame by blast
  have wr: "\<And>x s s'. store_point clock d op x s = (None, s') \<Longrightarrow> point_for h x \<Longrightarrow>
      ?Q x (prediction_rows d h (pending s'))"
  proof -
    fix x s s'
    assume a: "store_point clock d op x s = (None, s')" "point_for h x"
    from store_point_prediction_rows_write[OF a assms(3)]
    show "?Q x (prediction_rows d h (pending s'))"
      by (cases "truthy (field_of x ''is_actual'' (PBool False))") (auto dest: sym)
  qed
  from for_each_last[where body="store_point clock d op" and W="point_for h"
      and R="\<lambda>s. prediction_rows d h (pending s)" and Q="?Q", OF frame wr assms(1,2)]
  show ?thesis by simp
qed

section \<open>A point without an original prediction is skipped\<close>

text \<open>
  Claim C10. When the original price that a call carries for a horizon is missing, null
  or 0 (any value that is false in \<open>if original_price:\<close>), the call writes no
  prediction row and no metric row for that horizon, whatever the point says: for every
  anchor date the rows of the pair are the same after the call as before it.
\<close>

theorem falsy_original_price_skips_point:
  assumes "\<not> truthy (original_of (original_predictions_of cd) h ''original_price'')"
  shows "prediction_rows d h (snd (store_v4_data clock cd db)) = prediction_rows d h db \<and>
         metric_rows d h (snd (store_v4_data clock cd db)) = metric_rows d h db"
proof -
  obtain oc db' where r: "store_v4_data clock cd db = (oc, db')"
    by (cases "store_v4_data clock cd db")
  show ?thesis
  proof (cases "oc = Committed")
    case False
    then show ?thesis using store_v4_data_not_Committed[OF r] r by simp
  next
    case True
    from store_v4_data_Committed[OF r[unfolded True]] obtain d0 points conn2 conn' where
      fe: "for_each (store_point clock d0 (original_predictions_of cd)) points conn2 = (None, conn')"
      and db': "db' = pending conn'"
      and p2: "predictions (pending conn2) = predictions db"
      and m2: "accuracy_metrics (pending conn2) = accuracy_metrics db"
      by blast
    have "prediction_rows d h (pending conn') = prediction_rows d h (pending conn2)"
      using for_each_frame[where R="\<lambda>s. prediction_rows d h (pending s)", OF _ fe]
        store_point_prediction_rows_frame assms by blast
    moreover have "metric_rows d h (pending conn') = metric_rows d h (pending conn2)"
      using for_each_frame[where R="\<lambda>s. metric_rows d h (pending s)", OF _ fe]
        store_point_metric_rows_frame assms by blast
    ultimately show ?thesis
      using r db' p2 m2 by (simp add: prediction_rows_def metric_rows_def)
  qed
qed

theorem falsy_original_price_skips_point_witness:
  "\<not> truthy (original_of (original_predictions_of (example_curve_data 65170 True 0)) ''+1H''
        ''original_price'') \<and>
   fst (store_v4_data (example_store_clock 0) (example_curve_data 65170 True 0) empty_database) =
     Committed \<and>
   prediction_rows ''2025-06-01'' ''+1H''
     (snd (store_v4_data (example_store_clock 0) (example_curve_data 65170 True 0)
        empty_database)) = [] \<and>
   metric_rows ''2025-06-01'' ''+1H''
     (snd (store_v4_data (example_store_clock 0) (example_curve_data 65170 True 0)
        empty_database)) = []"
proof -
  have falsy: "\<not> truthy (original_of (original_predictions_of (example_curve_data 65170 True 0))
      ''+1H'' ''original_price'')"
    by code_simp
  have committed: "fst (store_v4_data (example_store_clock 0) (example_curve_data 65170 True 0)
      empty_database) = Committed"
    by code_simp
  from falsy_original_price_skips_point[OF falsy, of "''2025-06-01''" "example_store_clock 0"
      empty_database] falsy committed
  show ?thesis by (simp add: prediction_rows_def metric_rows_def empty_database_def)
qed

section \<open>The original prediction fields\<close>

lemma store_point_predictions_shape:
  assumes "store_point clock d op pt conn = (None, conn')"
  shows "predictions (pending conn') = predictions (pending conn) \<or>
     (\<exists>h prow. predictions (pending conn') =
         filter (\<lambda>r. \<not> (p_anchor_date r = SqlText d \<and> p_horizon r = SqlText h))
           (predictions (pending conn)) @ [prow] \<and>
       p_anchor_date prow = SqlText d \<and> p_horizon prow = SqlText h \<and>
       truthy (original_of op h ''original_price'') \<and>
       Inr (p_original_price prow) = bind_param (original_of op h ''original_price'') \<and>
       Inr (p_original_pct prow) = bind_param (original_of op h ''original_pct''))"
proof -
  from store_point_cases[OF assms] show ?thesis
  proof
    assume "conn' = conn \<and> \<not> (\<exists>h. point_for h pt \<and> truthy (original_of op h ''original_price''))"
    then show ?thesis by simp
  next
    assume "\<exists>h. point_for h pt \<and> truthy (original_of op h ''original_price'') \<and>
        store_prediction clock d (PStr h) (field_of pt ''target_price'' (PNum 0))
          (field_of pt ''pct_change'' (PNum 0)) (field_of pt ''is_actual'' (PBool False))
          (original_of op h ''original_price'') (original_of op h ''original_pct'')
          (original_of op h ''stabilized_price'') (original_of op h ''stabilized_pct'') conn =
        (None, conn')"
    then obtain h where h: "truthy (original_of op h ''original_price'')"
      and sp: "store_prediction clock d (PStr h) (field_of pt ''target_price'' (PNum 0))
          (field_of pt ''pct_change'' (PNum 0)) (field_of pt ''is_actual'' (PBool False))
          (original_of op h ''original_price'') (original_of op h ''original_pct'')
          (original_of op h ''stabilized_price'') (original_of op h ''stabilized_pct'') conn =
        (None, conn')" by blast
    from store_prediction_predictions[OF sp] h show ?thesis by auto
  qed
qed

lemma distinct_keys_replace:
  assumes "distinct (map prediction_key rows)" and "prediction_key prow = (a, b)"
  shows "distinct (map prediction_key
     (filter (\<lambda>r. \<not> (p_anchor_date r = a \<and> p_horizon r = b)) rows @ [prow]))"
  using assms by (auto simp: distinct_map_filter prediction_key_def)

lemma store_point_originals:
  assumes "store_point clock d0 op pt conn = (None, conn')"
    and "truthy (original_of op h ''original_price'') \<longrightarrow>
        bind_param (original_of op h ''original_price'') = Inr bop \<and>
        bind_param (original_of op h ''original_pct'') = Inr bopc"
    and "distinct (map prediction_key (predictions (pending conn))) \<and>
         (\<forall>r \<in> set (prediction_rows d h (pending conn)).
            p_original_price r = bop \<and> p_original_pct r = bopc) \<and>
         (nonempty \<longrightarrow> prediction_rows d h (pending conn) \<noteq> [])"
  shows "distinct (map prediction_key (predictions (pending conn'))) \<and>
         (\<forall>r \<in> set (prediction_rows d h (pending conn')).
            p_original_price r = bop \<and> p_original_pct r = bopc) \<and>
         (nonempty \<longrightarrow> prediction_rows d h (pending conn') \<noteq> [])"
proof -
  from store_point_predictions_shape[OF assms(1)] show ?thesis
  proof
    assume "predictions (pending conn') = predictions (pending conn)"
    then show ?thesis using assms(3) by (simp add: prediction_rows_def)
  next
    assume "\<exists>h prow. predictions (pending conn') =
         filter (\<lambda>r. \<not> (p_anchor_date r = SqlText d0 \<and> p_horizon r = SqlText h))
           (predictions (pending conn)) @ [prow] \<and>
       p_anchor_date prow = SqlText d0 \<and> p_horizon prow = SqlText h \<and>
       truthy (original_of op h ''original_price'') \<and>
       Inr (p_original_price prow) = bind_param (original_of op h ''original_price'') \<and>
       Inr (p_original_pct prow) = bind_param (original_of op h ''original_pct'')"
    then obtain h' prow where sh: "predictions (pending conn') =
         filter (\<lambda>r. \<not> (p_anchor_date r = SqlText d0 \<and> p_horizon r = SqlText h'))
           (predictions (pending conn)) @ [prow]"
      and k: "p_anchor_date prow = SqlText d0" "p_horizon prow = SqlText h'"
      and o: "truthy (original_of op h' ''original_price'')"
       "Inr (p_original_price prow) = bind_param (original_of op h' ''original_price'')"
       "Inr (p_original_pct prow) = bind_param (original_of op h' ''original_pct'')"
      by blast
    have dist: "distinct (map prediction_key (predictions (pending conn')))"
      unfolding sh using distinct_keys_replace[of "predictions (pending conn)" prow] assms(3) k
      by (simp add: prediction_key_def)
    show ?thesis
    proof (cases "d0 = d \<and> h' = h")
      case True
      then have "prediction_rows d h (pending conn') = [prow]"
        using sh k by (auto simp: prediction_rows_def)
      moreover have "p_original_price prow = bop \<and> p_original_pct prow = bopc"
        using o assms(2) True by auto
      ultimately show ?thesis using dist by simp
    next
      case False
      then have "prediction_rows d h (pending conn') = prediction_rows d h (pending conn)"
        using sh k by (auto simp: prediction_rows_def intro: filter_cong)
      then show ?thesis using dist assms(3) by simp
    qed
  qed
qed

lemma store_v4_data_originals:
  assumes "truthy (original_of (original_predictions_of cd) h ''original_price'') \<longrightarrow>
        bind_param (original_of (original_predictions_of cd) h ''original_price'') = Inr bop \<and>
        bind_param (original_of (original_predictions_of cd) h ''original_pct'') = Inr bopc"
    and "distinct (map prediction_key (predictions db)) \<and>
         (\<forall>r \<in> set (prediction_rows d h db). p_original_price r = bop \<and> p_original_pct r = bopc) \<and>
         (nonempty \<longrightarrow> prediction_rows d h db \<noteq> [])"
  shows "distinct (map prediction_key (predictions (snd (store_v4_data clock cd db)))) \<and>
         (\<forall>r \<in> set (prediction_rows d h (snd (store_v4_data clock cd db))).
            p_original_price r = bop \<and> p_original_pct r = bopc) \<and>
         (nonempty \<longrightarrow> prediction_rows d h (snd (store_v4_data clock cd db)) \<noteq> [])"
proof -
  obtain oc db' where r: "store_v4_data clock cd db = (oc, db')"
    by (cases "store_v4_data clock cd db")
  show ?thesis
  proof (cases "oc = Committed")
    case False
    then show ?thesis using store_v4_data_not_Committed[OF r] r assms(2) by simp
  next
    case True
    from store_v4_data_Committed[OF r[unfolded True]] obtain d0 points conn2 conn' where
      fe: "for_each (store_point clock d0 (original_predictions_of cd)) points conn2 = (None, conn')"
      and db': "db' = pending conn'"
      and p2: "predictions (pending conn2) = predictions db"
      by blast
    define P where "P = (\<lambda>s::connection. distinct (map prediction_key (predictions (pending s))) \<and>
         (\<forall>r \<in> set (prediction_rows d h (pending s)).
            p_original_price r = bop \<and> p_original_pct r = bopc) \<and>
         (nonempty \<longrightarrow> prediction_rows d h (pending s) \<noteq> []))"
    have step: "\<And>x s s'. x \<in> set points \<Longrightarrow>
        store_point clock d0 (original_predictions_of cd) x s = (None, s') \<Longrightarrow> P s \<Longrightarrow> P s'"
      unfolding P_def using store_point_originals[OF _ assms(1)] by blast
    have start: "P conn2" unfolding P_def using assms(2) p2 by (simp add: prediction_rows_def)
    have "P conn'"
      by (rule for_each_None_invariant[where P=P and xs=points, OF step fe start])
    then show ?thesis unfolding P_def using r db' by simp
  qed
qed

text \<open>
  Claim C1 fails as stated: every call rewrites the row of the pair from its own input.
  A second call for the same anchor date and horizon that carries the original price 65300
  replaces the stored 65200 (there is still one row for the pair).
\<close>

theorem original_fields_overwritten_counterexample:
  "map p_original_price (predictions (store_v4_data_calls
      [(example_store_clock 0, example_curve_data 65150 False 65200)] empty_database)) =
     [SqlReal 65200] \<and>
   map p_original_price (predictions (store_v4_data_calls
      [(example_store_clock 0, example_curve_data 65150 False 65200),
       (example_store_clock 5, example_curve_data 65150 False 65300)] empty_database)) =
     [SqlReal 65300] \<and>
   map prediction_key (predictions (store_v4_data_calls
      [(example_store_clock 0, example_curve_data 65150 False 65200),
       (example_store_clock 5, example_curve_data 65150 False 65300)] empty_database)) =
     [(SqlText ''2025-06-01'', SqlText ''+1H'')]"
  by code_simp

text \<open>
  Claim C1, amended. For every sequence of calls in which each call that carries an
  original price for the horizon carries the same original price and percent change,
  the original fields stored for the pair are invariant: the rows of the pair hold
  these values after the sequence, given that they did before it. The store does not
  protect the first value: a row holds the original fields of the last call that wrote
  it. No duplicate row is ever created (the keys stay distinct, so a pair has at most
  one row), and a pair that has a row keeps one.
\<close>

theorem original_fields_kept_while_calls_agree:
  assumes "distinct (map prediction_key (predictions db))"
    and "\<forall>(clock, cd) \<in> set calls.
           truthy (original_of (original_predictions_of cd) h ''original_price'') \<longrightarrow>
           bind_param (original_of (original_predictions_of cd) h ''original_price'') = Inr bop \<and>
           bind_param (original_of (original_predictions_of cd) h ''original_pct'') = Inr bopc"
    and "\<forall>r \<in> set (prediction_rows d h db). p_original_price r = bop \<and> p_original_pct r = bopc"
  shows "distinct (map prediction_key (predictions (store_v4_data_calls calls db))) \<and>
     length (prediction_rows d h (store_v4_data_calls calls db)) \<le> 1 \<and>
     (\<forall>r \<in> set (prediction_rows d h (store_v4_data_calls calls db)).
        p_original_price r = bop \<and> p_original_pct r = bopc) \<and>
     (prediction_rows d h db \<noteq> [] \<longrightarrow> prediction_rows d h (store_v4_data_calls calls db) \<noteq> [])"
proof -
  have main: "distinct (map prediction_key (predictions (store_v4_data_calls calls db))) \<and>
     (\<forall>r \<in> set (prediction_rows d h (store_v4_data_calls calls db)).
        p_original_price r = bop \<and> p_original_pct r = bopc) \<and>
     (nonempty \<longrightarrow> prediction_rows d h (store_v4_data_calls calls db) \<noteq> [])"
    if "distinct (map prediction_key (predictions db)) \<and>
         (\<forall>r \<in> set (prediction_rows d h db). p_original_price r = bop \<and> p_original_pct r = bopc) \<and>
         (nonempty \<longrightarrow> prediction_rows d h db \<noteq> [])" for nonempty
    using that assms(2)
  proof (induction calls arbitrary: db)
    case Nil
    then show ?case by simp
  next
    case (Cons c calls)
    obtain clock cd where c: "c = (clock, cd)" by (cases c)
    have agree: "truthy (original_of (original_predictions_of cd) h ''original_price'') \<longrightarrow>
        bind_param (original_of (original_predictions_of cd) h ''original_price'') = Inr bop \<and>
        bind_param (original_of (original_predictions_of cd) h ''original_pct'') = Inr bopc"
      using Cons.prems(2) c by auto
    from store_v4_data_originals[OF agree Cons.prems(1), of clock]
    have "distinct (map prediction_key (predictions (snd (store_v4_data clock cd db)))) \<and>
         (\<forall>r \<in> set (prediction_rows d h (snd (store_v4_data clock cd db))).
            p_original_price r = bop \<and> p_original_pct r = bopc) \<and>
         (nonempty \<longrightarrow> prediction_rows d h (snd (store_v4_data clock cd db)) \<noteq> [])" .
    from Cons.IH[OF this] Cons.prems(2) show ?case by (simp add: c)
  qed
  have len: "length (prediction_rows d h db2) \<le> 1"
    if "distinct (map prediction_key (predictions db2))" for db2
  proof -
    have "distinct (map prediction_key (prediction_rows d h db2))"
      using that by (simp add: prediction_rows_def distinct_map_filter)
    moreover have "\<forall>r \<in> set (prediction_rows d h db2). prediction_key r = (SqlText d, SqlText h)"
      by (auto simp: prediction_rows_def prediction_key_def)
    ultimately show ?thesis
    proof (cases "prediction_rows d h db2")
      case Nil
      then show ?thesis by simp
    next
      case (Cons r rs)
      assume dk: "distinct (map prediction_key (prediction_rows d h db2))"
        and ak: "\<forall>r \<in> set (prediction_rows d h db2). prediction_key r = (SqlText d, SqlText h)"
      have "rs = []"
      proof (cases rs)
        case Nil
        then show ?thesis .
      next
        case (Cons r' rs')
        then show ?thesis using dk ak \<open>prediction_rows d h db2 = r # rs\<close> by auto
      qed
      then show ?thesis using Cons by simp
    qed
  qed
  have start: "distinct (map prediction_key (predictions db)) \<and>
         (\<forall>r \<in> set (prediction_rows d h db). p_original_price r = bop \<and> p_original_pct r = bopc) \<and>
         (prediction_rows d h db \<noteq> [] \<longrightarrow> prediction_rows d h db \<noteq> [])"
    using assms(1,3) by blast
  note result = main[OF start]
  have "length (prediction_rows d h (store_v4_data_calls calls db)) \<le> 1"
    using result by (intro len) blast
  with result show ?thesis by blast
qed

theorem original_fields_kept_while_calls_agree_witness:
  "distinct (map prediction_key (predictions empty_database)) \<and>
   prediction_rows ''2025-06-01'' ''+1H'' empty_database = [] \<and>
   bind_param (original_of (original_predictions_of (example_curve_data 65150 False 65200))
     ''+1H'' ''original_price'') = Inr (SqlReal 65200) \<and>
   bind_param (original_of (original_predictions_of (example_curve_data 65150 False 65200))
     ''+1H'' ''original_pct'') = Inr (SqlReal 0.31) \<and>
   bind_param (original_of (original_predictions_of (example_curve_data 65170 True 65200))
     ''+1H'' ''original_price'') = Inr (SqlReal 65200) \<and>
   bind_param (original_of (original_predictions_of (example_curve_data 65170 True 65200))
     ''+1H'' ''original_pct'') = Inr (SqlReal 0.31) \<and>
   map p_original_price (prediction_rows ''2025-06-01'' ''+1H'' (store_v4_data_calls
      [(example_store_clock 0, example_curve_data 65150 False 65200),
       (example_store_clock 5, example_curve_data 65170 True 65200)] empty_database)) =
     [SqlReal 65200] \<and>
   map p_original_pct (prediction_rows ''2025-06-01'' ''+1H'' (store_v4_data_calls
      [(example_store_clock 0, example_curve_data 65150 False 65200),
       (example_store_clock 5, example_curve_data 65170 True 65200)] empty_database)) =
     [SqlReal 0.31]"
proof -
  let ?calls = "[(example_store_clock 0, example_curve_data 65150 False 65200),
                 (example_store_clock 5, example_curve_data 65170 True 65200)]"
  let ?rows = "prediction_rows ''2025-06-01'' ''+1H'' (store_v4_data_calls ?calls empty_database)"
  have h1: "distinct (map prediction_key (predictions empty_database))"
    by (simp add: empty_database_def)
  have carried:
    "bind_param (original_of (original_predictions_of (example_curve_data 65150 False 65200))
       ''+1H'' ''original_price'') = Inr (SqlReal 65200)"
    "bind_param (original_of (original_predictions_of (example_curve_data 65150 False 65200))
       ''+1H'' ''original_pct'') = Inr (SqlReal 0.31)"
    "bind_param (original_of (original_predictions_of (example_curve_data 65170 True 65200))
       ''+1H'' ''original_price'') = Inr (SqlReal 65200)"
    "bind_param (original_of (original_predictions_of (example_curve_data 65170 True 65200))
       ''+1H'' ''original_pct'') = Inr (SqlReal 0.31)"
    by code_simp+
  have h2: "\<forall>(clock, cd) \<in> set ?calls.
      truthy (original_of (original_predictions_of cd) ''+1H'' ''original_price'') \<longrightarrow>
      bind_param (original_of (original_predictions_of cd) ''+1H'' ''original_price'') =
        Inr (SqlReal 65200) \<and>
      bind_param (original_of (original_predictions_of cd) ''+1H'' ''original_pct'') =
        Inr (SqlReal 0.31)"
    using carried by simp
  have empty: "prediction_rows ''2025-06-01'' ''+1H'' empty_database = []"
    by (simp add: prediction_rows_def empty_database_def)
  have h3: "\<forall>r \<in> set (prediction_rows ''2025-06-01'' ''+1H'' empty_database).
      p_original_price r = SqlReal 65200 \<and> p_original_pct r = SqlReal 0.31"
    using empty by simp
  have len: "length ?rows = 1"
    by code_simp
  then obtain r where r: "?rows = [r]"
    by (cases ?rows) auto
  from original_fields_kept_while_calls_agree[OF h1 h2 h3]
  have "\<forall>r \<in> set ?rows. p_original_price r = SqlReal 65200 \<and> p_original_pct r = SqlReal 0.31"
    by blast
  then have "map p_original_price ?rows = [SqlReal 65200]"
    "map p_original_pct ?rows = [SqlReal 0.31]"
    using r by simp_all
  with h1 empty carried show ?thesis by blast
qed

section \<open>The actual fields\<close>

text \<open>
  Claim C2 fails as stated. After a call that marks +1H realized at 65170 the actual
  price is set; a later call for the same pair that does not mark it realized writes
  NULL again; a later call that marks it realized at 65171 replaces the price, and the
  time of that call replaces \<open>became_actual_at\<close>.
\<close>

theorem actual_fields_counterexample:
  "map p_actual_price (predictions (store_v4_data_calls
      [(example_store_clock 0, example_curve_data 65170 True 65200)] empty_database)) =
     [SqlReal 65170] \<and>
   map p_actual_price (predictions (store_v4_data_calls
      [(example_store_clock 0, example_curve_data 65170 True 65200),
       (example_store_clock 5, example_curve_data 65175 False 65200)] empty_database)) =
     [SqlNull] \<and>
   map p_became_actual_at (predictions (store_v4_data_calls
      [(example_store_clock 0, example_curve_data 65170 True 65200)] empty_database)) =
     [SqlText ''2025-06-01T14:00:08Z''] \<and>
   map (\<lambda>r. (p_actual_price r, p_became_actual_at r)) (predictions (store_v4_data_calls
      [(example_store_clock 0, example_curve_data 65170 True 65200),
       (example_store_clock 5, example_curve_data 65171 True 65200)] empty_database)) =
     [(SqlReal 65171, SqlText ''2025-06-01T14:05:08Z'')]"
  by code_simp

text \<open>
  Claim C2, amended. Every committed call that carries an original price for the horizon
  and has a point for it rewrites the actual fields of the pair's row from that point
  (the last one for the horizon): when the point is marked realized they are its target
  price, its percent change and a clock reading of this call, and when it is not they
  are all NULL. So the fields stay set and unrevised only as long as later calls mark
  the point realized with the same price and percent change, and \<open>became_actual_at\<close>
  is the time of the last such call.
\<close>

theorem actual_fields_follow_call:
  assumes "store_v4_data clock curve_data db = (Committed, db')"
    and "anchor_date_of curve_data = Some d"
    and "curve_points curve_data = Inr points"
    and "filter (point_for h) points \<noteq> []"
    and "truthy (original_of (original_predictions_of curve_data) h ''original_price'')"
  shows "\<exists>prow. prediction_rows d h db' = [prow] \<and>
     (if truthy (field_of (last (filter (point_for h) points)) ''is_actual'' (PBool False))
      then Inr (p_actual_price prow) =
             bind_param (field_of (last (filter (point_for h) points)) ''target_price'' (PNum 0)) \<and>
           Inr (p_actual_pct prow) =
             bind_param (field_of (last (filter (point_for h) points)) ''pct_change'' (PNum 0)) \<and>
           (\<exists>k. p_became_actual_at prow = SqlText (clock k))
      else p_actual_price prow = SqlNull \<and> p_actual_pct prow = SqlNull \<and>
           p_became_actual_at prow = SqlNull)"
proof -
  from store_v4_data_Committed[OF assms(1)] assms(2,3) obtain conn2 conn' where
    fe: "for_each (store_point clock d (original_predictions_of curve_data)) points conn2 =
           (None, conn')"
    and db': "db' = pending conn'"
    by auto
  from for_each_prediction_rows_last[OF fe assms(4,5)] db' show ?thesis by blast
qed

theorem actual_fields_follow_call_witness:
  "store_v4_data (example_store_clock 0) (example_curve_data 65170 True 65200) empty_database =
     (Committed, snd (store_v4_data (example_store_clock 0)
        (example_curve_data 65170 True 65200) empty_database)) \<and>
   anchor_date_of (example_curve_data 65170 True 65200) = Some ''2025-06-01'' \<and>
   curve_points (example_curve_data 65170 True 65200) =
     Inr [PDict [(''horizon'', PStr ''+1H''), (''target_price'', PNum 65170),
                 (''pct_change'', PNum 0.26), (''is_actual'', PBool True)]] \<and>
   truthy (original_of (original_predictions_of (example_curve_data 65170 True 65200)) ''+1H''
     ''original_price'') \<and>
   (\<exists>prow. prediction_rows ''2025-06-01'' ''+1H'' (snd (store_v4_data (example_store_clock 0)
        (example_curve_data 65170 True 65200) empty_database)) = [prow] \<and>
      p_actual_price prow = SqlReal 65170 \<and> p_actual_pct prow = SqlReal 0.26 \<and>
      (\<exists>k. p_became_actual_at prow = SqlText (example_store_clock 0 k)))"
proof -
  let ?cd = "example_curve_data 65170 True 65200"
  let ?pt = "PDict [(''horizon'', PStr ''+1H''), (''target_price'', PNum 65170),
                 (''pct_change'', PNum 0.26), (''is_actual'', PBool True)]"
  have run: "store_v4_data (example_store_clock 0) ?cd empty_database =
     (Committed, snd (store_v4_data (example_store_clock 0) ?cd empty_database))"
    by code_simp
  have ad: "anchor_date_of ?cd = Some ''2025-06-01''"
    by code_simp
  have cp: "curve_points ?cd = Inr [?pt]"
    by code_simp
  have pf: "filter (point_for ''+1H'') [?pt] \<noteq> []"
    by code_simp
  have tr: "truthy (original_of (original_predictions_of ?cd) ''+1H'' ''original_price'')"
    by code_simp
  have fields: "truthy (field_of (last (filter (point_for ''+1H'') [?pt])) ''is_actual'' (PBool False))"
    "bind_param (field_of (last (filter (point_for ''+1H'') [?pt])) ''target_price'' (PNum 0)) =
       Inr (SqlReal 65170)"
    "bind_param (field_of (last (filter (point_for ''+1H'') [?pt])) ''pct_change'' (PNum 0)) =
       Inr (SqlReal 0.26)"
    by code_simp+
  from actual_fields_follow_call[OF run ad cp pf tr] fields
  have "\<exists>prow. prediction_rows ''2025-06-01'' ''+1H'' (snd (store_v4_data (example_store_clock 0)
        ?cd empty_database)) = [prow] \<and>
      p_actual_price prow = SqlReal 65170 \<and> p_actual_pct prow = SqlReal 0.26 \<and>
      (\<exists>k. p_became_actual_at prow = SqlText (example_store_clock 0 k))"
    by auto
  with run ad cp tr show ?thesis by blast
qed

section \<open>The accuracy metric\<close>

lemma for_each_metric_rows_last:
  assumes "for_each (store_point clock d op) points conn = (None, conn')"
    and "filter (point_for h) points \<noteq> []"
    and "truthy (original_of op h ''original_price'')"
    and "truthy (field_of (last (filter (point_for h) points)) ''is_actual'' (PBool False))"
    and "py_num (field_of (last (filter (point_for h) points)) ''target_price'' (PNum 0)) = Inr t"
    and "t > 0"
  shows "\<exists>x mrow. py_num (original_of op h ''original_price'') = Inr x \<and>
     metric_rows d h (pending conn') = [mrow] \<and>
     m_original_error_pct mrow = SqlReal (\<bar>t - x\<bar> / t * 100) \<and>
     m_original_accuracy mrow = SqlReal (100 - \<bar>t - x\<bar> / t * 100) \<and>
     (if truthy (original_of op h ''stabilized_price'')
      then \<exists>s. py_num (original_of op h ''stabilized_price'') = Inr s \<and>
             m_stabilized_error_pct mrow = SqlReal (\<bar>t - s\<bar> / t * 100) \<and>
             m_stabilized_accuracy mrow = SqlReal (100 - \<bar>t - s\<bar> / t * 100)
      else m_stabilized_error_pct mrow = SqlNull \<and> m_stabilized_accuracy mrow = SqlNull)"
proof -
  define Q where "Q = (\<lambda>pt (rows::metric_row list). \<forall>t. truthy (field_of pt ''is_actual'' (PBool False)) \<longrightarrow>
     py_num (field_of pt ''target_price'' (PNum 0)) = Inr t \<longrightarrow> t > 0 \<longrightarrow>
     (\<exists>x mrow. py_num (original_of op h ''original_price'') = Inr x \<and>
     rows = [mrow] \<and>
     m_original_error_pct mrow = SqlReal (\<bar>t - x\<bar> / t * 100) \<and>
     m_original_accuracy mrow = SqlReal (100 - \<bar>t - x\<bar> / t * 100) \<and>
     (if truthy (original_of op h ''stabilized_price'')
      then \<exists>s. py_num (original_of op h ''stabilized_price'') = Inr s \<and>
             m_stabilized_error_pct mrow = SqlReal (\<bar>t - s\<bar> / t * 100) \<and>
             m_stabilized_accuracy mrow = SqlReal (100 - \<bar>t - s\<bar> / t * 100)
      else m_stabilized_error_pct mrow = SqlNull \<and> m_stabilized_accuracy mrow = SqlNull)))"
  define R where "R = (\<lambda>s::connection. metric_rows d h (pending s))"
  have frame: "\<And>x s s'. store_point clock d op x s = (None, s') \<Longrightarrow> \<not> point_for h x \<Longrightarrow>
      R s' = R s"
    unfolding R_def using store_point_metric_rows_frame by blast
  have wr: "\<And>x s s'. store_point clock d op x s = (None, s') \<Longrightarrow> point_for h x \<Longrightarrow>
      Q x (R s')"
    unfolding Q_def R_def using store_point_metric_rows_write assms(3) by blast
  have "Q (last (filter (point_for h) points)) (R conn')"
    using frame wr assms(1,2) by (rule for_each_last)
  then show ?thesis
    unfolding Q_def R_def using assms(4,5,6) by blast
qed

text \<open>
  Claim C9 fails as stated for a negative actual price: the guard of the metric
  computation is \<open>target_price > 0\<close>, so a point realized at -1 with an original
  prediction gets its prediction row and no metric row.
\<close>

theorem metric_negative_price_counterexample:
  "store_v4_data (example_store_clock 0) (example_curve_data (- 1) True 65200) empty_database =
     (Committed, snd (store_v4_data (example_store_clock 0)
        (example_curve_data (- 1) True 65200) empty_database)) \<and>
   map p_actual_price (predictions (snd (store_v4_data (example_store_clock 0)
        (example_curve_data (- 1) True 65200) empty_database))) = [SqlReal (- 1)] \<and>
   accuracy_metrics (snd (store_v4_data (example_store_clock 0)
        (example_curve_data (- 1) True 65200) empty_database)) = []"
  by code_simp

text \<open>
  Claim C9, amended. For every committed call and every horizon whose (last) point is
  marked realized with a positive actual price \<open>t\<close> and for which the call carries an
  original price \<open>x\<close>, the pair has one metric row with original error percent
  \<open>|t - x| / t * 100\<close> and original accuracy 100 minus that; the stabilized error and
  accuracy are computed in the same way from the stabilized price, and are NULL when the
  stabilized price is missing, null or 0. In the example scenario (original 65200,
  stabilized 65180, actual 65170) the original error is about 0.046 and the stabilized
  error about 0.015. Numbers are reals here; the rounding of floats is not modelled.
\<close>

theorem accuracy_metric_formula:
  assumes "store_v4_data clock curve_data db = (Committed, db')"
    and "anchor_date_of curve_data = Some d"
    and "curve_points curve_data = Inr points"
    and "filter (point_for h) points \<noteq> []"
    and "truthy (original_of (original_predictions_of curve_data) h ''original_price'')"
    and "truthy (field_of (last (filter (point_for h) points)) ''is_actual'' (PBool False))"
    and "py_num (field_of (last (filter (point_for h) points)) ''target_price'' (PNum 0)) = Inr t"
    and "t > 0"
  shows "\<exists>x mrow. py_num (original_of (original_predictions_of curve_data) h ''original_price'') = Inr x \<and>
     metric_rows d h db' = [mrow] \<and>
     m_original_error_pct mrow = SqlReal (\<bar>t - x\<bar> / t * 100) \<and>
     m_original_accuracy mrow = SqlReal (100 - \<bar>t - x\<bar> / t * 100) \<and>
     (if truthy (original_of (original_predictions_of curve_data) h ''stabilized_price'')
      then \<exists>s. py_num (original_of (original_predictions_of curve_data) h ''stabilized_price'') = Inr s \<and>
             m_stabilized_error_pct mrow = SqlReal (\<bar>t - s\<bar> / t * 100) \<and>
             m_stabilized_accuracy mrow = SqlReal (100 - \<bar>t - s\<bar> / t * 100)
      else m_stabilized_error_pct mrow = SqlNull \<and> m_stabilized_accuracy mrow = SqlNull)"
proof -
  from store_v4_data_Committed[OF assms(1)] assms(2,3) obtain conn2 conn' where
    fe: "for_each (store_point clock d (original_predictions_of curve_data)) points conn2 =
           (None, conn')"
    and db': "db' = pending conn'"
    by auto
  from for_each_metric_rows_last[OF fe assms(4-8)] db' show ?thesis by blast
qed

theorem accuracy_metric_formula_witness:
  "store_v4_data (example_store_clock 0) (example_curve_data 65170 True 65200) empty_database =
     (Committed, snd (store_v4_data (example_store_clock 0)
        (example_curve_data 65170 True 65200) empty_database)) \<and>
   anchor_date_of (example_curve_data 65170 True 65200) = Some ''2025-06-01'' \<and>
   curve_points (example_curve_data 65170 True 65200) =
     Inr [PDict [(''horizon'', PStr ''+1H''), (''target_price'', PNum 65170),
                 (''pct_change'', PNum 0.26), (''is_actual'', PBool True)]] \<and>
   (0::real) < 65170 \<and>
   (\<exists>mrow. metric_rows ''2025-06-01'' ''+1H'' (snd (store_v4_data (example_store_clock 0)
        (example_curve_data 65170 True 65200) empty_database)) = [mrow] \<and>
      m_original_error_pct mrow = SqlReal (\<bar>65170 - 65200\<bar> / 65170 * 100) \<and>
      m_original_accuracy mrow = SqlReal (100 - \<bar>65170 - 65200\<bar> / 65170 * 100) \<and>
      m_stabilized_error_pct mrow = SqlReal (\<bar>65170 - 65180\<bar> / 65170 * 100) \<and>
      m_stabilized_accuracy mrow = SqlReal (100 - \<bar>65170 - 65180\<bar> / 65170 * 100)) \<and>
   (0.046::real) < \<bar>65170 - 65200\<bar> / 65170 * 100 \<and>
   \<bar>65170 - 65200\<bar> / 65170 * 100 < (0.0461::real) \<and>
   (0.0153::real) < \<bar>65170 - 65180\<bar> / 65170 * 100 \<and>
   \<bar>65170 - 65180\<bar> / 65170 * 100 < (0.0154::real)"
proof -
  let ?cd = "example_curve_data 65170 True 65200"
  let ?pt = "PDict [(''horizon'', PStr ''+1H''), (''target_price'', PNum 65170),
                 (''pct_change'', PNum 0.26), (''is_actual'', PBool True)]"
  have run: "store_v4_data (example_store_clock 0) ?cd empty_database =
     (Committed, snd (store_v4_data (example_store_clock 0) ?cd empty_database))"
    by code_simp
  have ad: "anchor_date_of ?cd = Some ''2025-06-01''"
    by code_simp
  have cp: "curve_points ?cd = Inr [?pt]"
    by code_simp
  have pf: "filter (point_for ''+1H'') [?pt] \<noteq> []"
    by code_simp
  have tr: "truthy (original_of (original_predictions_of ?cd) ''+1H'' ''original_price'')"
    by code_simp
  have ia: "truthy (field_of (last (filter (point_for ''+1H'') [?pt])) ''is_actual'' (PBool False))"
    by code_simp
  have tp: "py_num (field_of (last (filter (point_for ''+1H'') [?pt])) ''target_price'' (PNum 0)) =
       Inr 65170"
    by code_simp
  have pos: "(0::real) < 65170" by simp
  have orig: "py_num (original_of (original_predictions_of ?cd) ''+1H'' ''original_price'') = Inr 65200"
    "py_num (original_of (original_predictions_of ?cd) ''+1H'' ''stabilized_price'') = Inr 65180"
    "truthy (original_of (original_predictions_of ?cd) ''+1H'' ''stabilized_price'')"
    by code_simp+
  from accuracy_metric_formula[OF run ad cp pf tr ia tp pos] orig
  have "\<exists>mrow. metric_rows ''2025-06-01'' ''+1H'' (snd (store_v4_data (example_store_clock 0)
        ?cd empty_database)) = [mrow] \<and>
      m_original_error_pct mrow = SqlReal (\<bar>65170 - 65200\<bar> / 65170 * 100) \<and>
      m_original_accuracy mrow = SqlReal (100 - \<bar>65170 - 65200\<bar> / 65170 * 100) \<and>
      m_stabilized_error_pct mrow = SqlReal (\<bar>65170 - 65180\<bar> / 65170 * 100) \<and>
      m_stabilized_accuracy mrow = SqlReal (100 - \<bar>65170 - 65180\<bar> / 65170 * 100)"
    by auto
  moreover have "(0.046::real) < \<bar>65170 - 65200\<bar> / 65170 * 100"
    "\<bar>65170 - 65200\<bar> / 65170 * 100 < (0.0461::real)"
    "(0.0153::real) < \<bar>65170 - 65180\<bar> / 65170 * 100"
    "\<bar>65170 - 65180\<bar> / 65170 * 100 < (0.0154::real)"
    by simp_all
  ultimately show ?thesis using run ad cp pos by blast
qed

section \<open>The guard of the division\<close>

lemma bind_params_error: "bind_params vs = Inl e \<Longrightarrow> e = InterfaceError"
proof (induction vs arbitrary: e)
  case Nil then show ?case by simp
next
  case (Cons v vs)
  then show ?case
    by (cases v; cases "bind_params vs") (auto simp: and_then_def)
qed

lemma execute_error:
  assumes "execute st params conn = (Some e, conn')"
    and "\<And>ps db e'. st ps db = Inl e' \<Longrightarrow> e' \<noteq> ZeroDivisionError"
  shows "e \<noteq> ZeroDivisionError \<and> pending conn' = pending conn"
  using assms bind_params_error[of params]
  by (auto simp: execute_def and_then_def split: sum.splits)

lemma insert_or_replace_prediction_error:
  "insert_or_replace_prediction ps db = Inl e \<Longrightarrow> e \<noteq> ZeroDivisionError"
  by (auto simp: insert_or_replace_prediction_def split: list.splits if_splits)

lemma insert_or_replace_metric_error:
  "insert_or_replace_metric ps db = Inl e \<Longrightarrow> e \<noteq> ZeroDivisionError"
  by (auto simp: insert_or_replace_metric_def split: list.splits if_splits)

lemma insert_or_replace_anchor_error:
  "insert_or_replace_anchor ps db = Inl e \<Longrightarrow> e \<noteq> ZeroDivisionError"
  by (auto simp: insert_or_replace_anchor_def split: list.splits if_splits)

lemma py_num_error: "py_num v = Inl e \<Longrightarrow> e = TypeError"
  by (cases v) auto

lemma py_get_error: "py_get obj k dflt = Inl e \<Longrightarrow> e = AttributeError"
  by (cases obj) auto

lemma py_get_key_error: "py_get_key obj key dflt = Inl e \<Longrightarrow> e \<noteq> ZeroDivisionError"
  by (cases obj; cases key) auto

lemma error_pct_error: "t \<noteq> 0 \<Longrightarrow> error_pct t p = Inl e \<Longrightarrow> e = TypeError"
  by (auto simp: error_pct_def and_then_def py_truediv_def split: sum.splits dest: py_num_error)

lemma store_metric_error:
  assumes "t > 0" and "store_metric clock d h t op sp conn = (Some e, conn')"
  shows "e \<noteq> ZeroDivisionError"
proof -
  have t: "t \<noteq> 0" using assms(1) by simp
  show ?thesis
    using assms(2) error_pct_error[OF t]
    by (auto simp: store_metric_def and_then_def now_isoformat_def
        split: sum.splits if_splits prod.splits
        dest!: execute_error[OF _ insert_or_replace_metric_error])
qed

lemma store_prediction_error:
  assumes "store_prediction clock d h tp pc ia op opc sp spc conn = (Some e, conn')"
  shows "e \<noteq> ZeroDivisionError"
  using assms
  by (auto simp: store_prediction_def now_isoformat_def
      split: sum.splits if_splits prod.splits option.splits
      dest!: execute_error[OF _ insert_or_replace_prediction_error] py_num_error
      dest: store_metric_error)

lemma read_point_error: "read_point op pt = Inl e \<Longrightarrow> e \<noteq> ZeroDivisionError"
  by (auto simp: read_point_def and_then_def split: sum.splits if_splits
      dest!: py_get_error py_get_key_error)

lemma store_point_error:
  assumes "store_point clock d op pt conn = (Some e, conn')"
  shows "e \<noteq> ZeroDivisionError"
  using assms
  by (auto simp: store_point_def split: sum.splits option.splits if_splits
      dest: read_point_error store_prediction_error)

lemma for_each_error:
  assumes "\<And>x s e s'. body x s = (Some e, s') \<Longrightarrow> P e"
  shows "for_each body xs s = (Some e, s') \<Longrightarrow> P e"
proof (induction xs arbitrary: s)
  case Nil then show ?case by simp
next
  case (Cons x xs)
  obtain r1 s1 where b: "body x s = (r1, s1)" by (cases "body x s")
  show ?case
  proof (cases r1)
    case None
    then show ?thesis using Cons b by simp
  next
    case (Some e1)
    then show ?thesis using Cons.prems b assms[of x s e1 s1] by simp
  qed
qed

lemma points_of_items_error: "points_of_items kvs = Inl e \<Longrightarrow> e = AttributeError"
proof (induction kvs arbitrary: e)
  case Nil then show ?case by simp
next
  case (Cons kv kvs)
  obtain k v where kv: "kv = (k, v)" by (cases kv)
  show ?case
    using Cons kv
    by (cases v; cases "points_of_items kvs") (auto simp: and_then_def)
qed

lemma py_iter_error: "py_iter v = Inl e \<Longrightarrow> e = TypeError"
  by (cases v) auto

lemma py_items_error: "py_items v = Inl e \<Longrightarrow> e = AttributeError"
  by (cases v) auto

lemma curve_points_error: "curve_points cd = Inl e \<Longrightarrow> e \<noteq> ZeroDivisionError"
  by (auto simp: curve_points_def and_then_def split: sum.splits if_splits
      dest!: py_get_error py_iter_error py_items_error points_of_items_error)

lemma store_body_error:
  assumes "store_body clock cd ts d conn = (Some e, conn')"
  shows "e \<noteq> ZeroDivisionError"
proof -
  have fe: "\<And>op pts c c'. for_each (store_point clock d op) pts c = (Some e, c') \<Longrightarrow>
      e \<noteq> ZeroDivisionError"
    using for_each_error[where P="\<lambda>e. e \<noteq> ZeroDivisionError" and body="store_point clock d _"]
      store_point_error by blast
  show ?thesis
    using assms
    by (auto simp: store_body_def and_then_def now_isoformat_def
        split: sum.splits prod.splits option.splits
        dest!: py_get_error curve_points_error fe
          execute_error[OF _ insert_or_replace_anchor_error])
qed

lemma split_T_first_error: "split_T_first v = Inl e \<Longrightarrow> e = AttributeError"
  by (cases v) auto

lemma store_v4_data_no_zero_division:
  "fst (store_v4_data clock cd db) \<noteq> Rolled_back ZeroDivisionError \<and>
   fst (store_v4_data clock cd db) \<noteq> Raised ZeroDivisionError"
  by (auto simp: store_v4_data_def split: sum.splits prod.splits option.splits if_splits
      dest!: py_get_error split_T_first_error store_body_error)

lemma execute_prediction_metrics:
  "execute insert_or_replace_prediction ps conn = (res, conn') \<Longrightarrow>
   accuracy_metrics (pending conn') = accuracy_metrics (pending conn)"
  by (auto simp: execute_def and_then_def insert_or_replace_prediction_def
      split: sum.splits list.splits if_splits)

lemma store_prediction_guard:
  assumes "\<not> (\<exists>t. py_num tp = Inr t \<and> 0 < t)"
    and "store_prediction clock d h tp pc ia op opc sp spc conn = (res, conn')"
  shows "accuracy_metrics (pending conn') = accuracy_metrics (pending conn)"
proof -
  define ba conn1 where "ba = (if truthy ia then PStr (clock (ticks conn)) else PNone)"
    and "conn1 = (if truthy ia then conn\<lparr>ticks := Suc (ticks conn)\<rparr> else conn)"
  have now: "(if truthy ia then now_isoformat clock conn else (PNone, conn)) = (ba, conn1)"
    by (simp add: ba_def conn1_def now_isoformat_def)
  have m1: "accuracy_metrics (pending conn1) = accuracy_metrics (pending conn)"
    by (simp add: conn1_def)
  obtain r2 conn2 where ex: "execute insert_or_replace_prediction
      [PStr d, h, op, opc, sp, spc, if truthy ia then tp else PNone,
       if truthy ia then pc else PNone, ba] conn1 = (r2, conn2)"
    by (cases "execute insert_or_replace_prediction
      [PStr d, h, op, opc, sp, spc, if truthy ia then tp else PNone,
       if truthy ia then pc else PNone, ba] conn1")
  have m2: "accuracy_metrics (pending conn2) = accuracy_metrics (pending conn)"
    using execute_prediction_metrics[OF ex] m1 by simp
  have "conn' = conn2"
    using assms now ex
    by (cases r2; cases "py_num tp") (auto simp: store_prediction_def split: if_splits)
  then show ?thesis using m2 by simp
qed

lemma store_point_guard:
  assumes "\<not> (\<exists>t. py_num (field_of pt ''target_price'' (PNum 0)) = Inr t \<and> 0 < t)"
    and "store_point clock d op pt conn = (res, conn')"
  shows "accuracy_metrics (pending conn') = accuracy_metrics (pending conn)"
proof (cases "read_point op pt")
  case (Inl e)
  then show ?thesis using assms(2) by (simp add: store_point_def)
next
  case (Inr ro)
  show ?thesis
  proof (cases ro)
    case None
    then show ?thesis using assms(2) Inr by (simp add: store_point_def)
  next
    case (Some r)
    show ?thesis
    proof (cases "truthy (r_original_price r)")
      case False
      then show ?thesis using assms(2) Inr Some by (simp add: store_point_def)
    next
      case True
      from read_point_Some[OF Inr[unfolded Some] True]
      have tp: "r_target_price r = field_of pt ''target_price'' (PNum 0)" by blast
      have "store_prediction clock d (r_horizon r) (r_target_price r)
                 (r_pct_change r) (r_is_actual r) (r_original_price r) (r_original_pct r)
                 (r_stabilized_price r) (r_stabilized_pct r) conn = (res, conn')"
        using assms(2) Inr Some True by (simp add: store_point_def)
      from store_prediction_guard[OF _ this] assms(1) tp show ?thesis by simp
    qed
  qed
qed

lemma store_v4_data_guard:
  assumes "\<forall>points. curve_points cd = Inr points \<longrightarrow>
     (\<forall>pt \<in> set points. point_for h pt \<longrightarrow>
        \<not> (\<exists>t. py_num (field_of pt ''target_price'' (PNum 0)) = Inr t \<and> 0 < t))"
  shows "metric_rows d h (snd (store_v4_data clock cd db)) = metric_rows d h db"
proof -
  obtain oc db' where r: "store_v4_data clock cd db = (oc, db')"
    by (cases "store_v4_data clock cd db")
  show ?thesis
  proof (cases "oc = Committed")
    case False
    then show ?thesis using store_v4_data_not_Committed[OF r] r by simp
  next
    case True
    from store_v4_data_Committed[OF r[unfolded True]] obtain d0 points conn2 conn' where
      cp: "curve_points cd = Inr points"
      and fe: "for_each (store_point clock d0 (original_predictions_of cd)) points conn2 = (None, conn')"
      and db': "db' = pending conn'"
      and m2: "accuracy_metrics (pending conn2) = accuracy_metrics db"
      by blast
    have step: "\<And>x s s'. x \<in> set points \<Longrightarrow>
        store_point clock d0 (original_predictions_of cd) x s = (None, s') \<Longrightarrow>
        metric_rows d h (pending s') = metric_rows d h (pending s)"
      using store_point_metric_rows_frame assms cp by blast
    have "metric_rows d h (pending conn') = metric_rows d h (pending conn2)"
      by (rule for_each_frame[where R="\<lambda>s. metric_rows d h (pending s)" and xs=points,
            OF step fe])
    then show ?thesis using r db' m2 by (simp add: metric_rows_def)
  qed
qed

text \<open>
  Claim C5. A round of the loop for a point whose target price is exactly zero (also
  when it is marked realized) leaves the metric table as it was, and so does every
  round whose target price is not a positive number: the metric computation and its
  division are reached only under \<open>target_price > 0\<close>. No round and no call ends
  with a \<open>ZeroDivisionError\<close>. A call in which every point of a horizon has the
  target price zero leaves the metric rows of that horizon unchanged.
\<close>

theorem zero_target_price_no_metric:
  "(py_num (field_of point ''target_price'' (PNum 0)) = Inr 0 \<longrightarrow>
      accuracy_metrics (pending (snd (store_point clock d original_preds point conn))) =
        accuracy_metrics (pending conn)) \<and>
   (\<not> (\<exists>t. py_num (field_of point ''target_price'' (PNum 0)) = Inr t \<and> 0 < t) \<longrightarrow>
      accuracy_metrics (pending (snd (store_point clock d original_preds point conn))) =
        accuracy_metrics (pending conn)) \<and>
   fst (store_point clock d original_preds point conn) \<noteq> Some ZeroDivisionError \<and>
   ((\<forall>points. curve_points curve_data = Inr points \<longrightarrow>
       (\<forall>pt \<in> set points. point_for h pt \<longrightarrow>
          py_num (field_of pt ''target_price'' (PNum 0)) = Inr 0)) \<longrightarrow>
      metric_rows d h (snd (store_v4_data clock curve_data db)) = metric_rows d h db) \<and>
   fst (store_v4_data clock curve_data db) \<noteq> Rolled_back ZeroDivisionError \<and>
   fst (store_v4_data clock curve_data db) \<noteq> Raised ZeroDivisionError"
proof -
  obtain res conn' where sp: "store_point clock d original_preds point conn = (res, conn')"
    by (cases "store_point clock d original_preds point conn")
  have guard: "\<not> (\<exists>t. py_num (field_of point ''target_price'' (PNum 0)) = Inr t \<and> 0 < t) \<longrightarrow>
      accuracy_metrics (pending (snd (store_point clock d original_preds point conn))) =
        accuracy_metrics (pending conn)"
    using store_point_guard[OF _ sp] sp by simp
  have zero: "py_num (field_of point ''target_price'' (PNum 0)) = Inr 0 \<longrightarrow>
      accuracy_metrics (pending (snd (store_point clock d original_preds point conn))) =
        accuracy_metrics (pending conn)"
    using guard by auto
  have nodiv: "fst (store_point clock d original_preds point conn) \<noteq> Some ZeroDivisionError"
    using store_point_error[of clock d original_preds point conn ZeroDivisionError conn'] sp
    by auto
  have call: "(\<forall>points. curve_points curve_data = Inr points \<longrightarrow>
       (\<forall>pt \<in> set points. point_for h pt \<longrightarrow>
          py_num (field_of pt ''target_price'' (PNum 0)) = Inr 0)) \<longrightarrow>
      metric_rows d h (snd (store_v4_data clock curve_data db)) = metric_rows d h db"
  proof
    assume a: "\<forall>points. curve_points curve_data = Inr points \<longrightarrow>
       (\<forall>pt \<in> set points. point_for h pt \<longrightarrow>
          py_num (field_of pt ''target_price'' (PNum 0)) = Inr 0)"
    have "\<forall>points. curve_points curve_data = Inr points \<longrightarrow>
     (\<forall>pt \<in> set points. point_for h pt \<longrightarrow>
        \<not> (\<exists>t. py_num (field_of pt ''target_price'' (PNum 0)) = Inr t \<and> 0 < t))"
      using a by fastforce
    then show "metric_rows d h (snd (store_v4_data clock curve_data db)) = metric_rows d h db"
      by (rule store_v4_data_guard)
  qed
  from zero guard nodiv call store_v4_data_no_zero_division[of clock curve_data db]
  show ?thesis by blast
qed

theorem zero_target_price_no_metric_witness:
  "py_num (field_of (PDict [(''horizon'', PStr ''+1H''), (''target_price'', PNum 0),
       (''pct_change'', PNum 0.26), (''is_actual'', PBool True)]) ''target_price'' (PNum 0)) =
     Inr 0 \<and>
   curve_points (example_curve_data 0 True 65200) =
     Inr [PDict [(''horizon'', PStr ''+1H''), (''target_price'', PNum 0),
       (''pct_change'', PNum 0.26), (''is_actual'', PBool True)]] \<and>
   store_v4_data (example_store_clock 0) (example_curve_data 0 True 65200) empty_database =
     (Committed, snd (store_v4_data (example_store_clock 0) (example_curve_data 0 True 65200)
        empty_database)) \<and>
   map p_actual_price (predictions (snd (store_v4_data (example_store_clock 0)
     (example_curve_data 0 True 65200) empty_database))) = [SqlReal 0] \<and>
   metric_rows ''2025-06-01'' ''+1H'' (snd (store_v4_data (example_store_clock 0)
     (example_curve_data 0 True 65200) empty_database)) = []"
proof -
  let ?pt = "PDict [(''horizon'', PStr ''+1H''), (''target_price'', PNum 0),
       (''pct_change'', PNum 0.26), (''is_actual'', PBool True)]"
  have zero: "py_num (field_of ?pt ''target_price'' (PNum 0)) = Inr 0"
    by code_simp
  have cp: "curve_points (example_curve_data 0 True 65200) = Inr [?pt]"
    by code_simp
  have run: "store_v4_data (example_store_clock 0) (example_curve_data 0 True 65200) empty_database =
     (Committed, snd (store_v4_data (example_store_clock 0) (example_curve_data 0 True 65200)
        empty_database))"
    "map p_actual_price (predictions (snd (store_v4_data (example_store_clock 0)
     (example_curve_data 0 True 65200) empty_database))) = [SqlReal 0]"
    by code_simp+
  have all: "\<forall>points. curve_points (example_curve_data 0 True 65200) = Inr points \<longrightarrow>
       (\<forall>pt \<in> set points. point_for ''+1H'' pt \<longrightarrow>
          py_num (field_of pt ''target_price'' (PNum 0)) = Inr 0)"
    using cp zero by simp
  from zero_target_price_no_metric[of ?pt "example_store_clock 0" "''2025-06-01''"
      "PDict []" "sqlite3_connect empty_database" "example_curve_data 0 True 65200" "''+1H''"
      empty_database] all
  have "metric_rows ''2025-06-01'' ''+1H'' (snd (store_v4_data (example_store_clock 0)
     (example_curve_data 0 True 65200) empty_database)) =
     metric_rows ''2025-06-01'' ''+1H'' empty_database"
    by blast
  then show ?thesis using zero cp run
    by (simp add: metric_rows_def empty_database_def)
qed

end
